theory Spec2Isabelle
  imports Complex_Main
begin

section \<open>Python values\<close>

text \<open>
  The monitor works on the values that \<^verbatim>\<open>json.loads\<close> returns and on dictionaries
  it builds from them. A dictionary is an association list in insertion order; the
  dictionaries the program receives come from a JSON parser and have pairwise different
  keys. Python's \<^verbatim>\<open>int\<close> is unbounded and is \<^typ>\<open>int\<close>; a Python \<^verbatim>\<open>float\<close> is
  idealised as a rational number, so that \<^verbatim>\<open>/\<close> is the exact quotient (rounding,
  overflow, infinities and NaN of IEEE doubles are outside this model). \<open>JNull\<close> is
  \<^verbatim>\<open>None\<close>.
\<close>

datatype json =
    JNull
  | JBool bool
  | JInt int
  | JFloat rat
  | JStr string
  | JList "json list"
  | JDict "(string \<times> json) list"

text \<open>
  The exceptions of the modelled code. \<open>NonStringKey\<close> marks the one
  place where the model stops short of Python: a hashable key that is not a string
  (a number, a boolean, \<^verbatim>\<open>None\<close>) stored into a dictionary, which Python accepts.
\<close>

datatype error =
    KeyError
  | TypeError
  | AttributeError
  | ZeroDivisionError
  | ValueError
  | TimeoutExpired
  | JSONDecodeError
  | OSError
  | NonStringKey

definition and_then :: "error + 'a \<Rightarrow> ('a \<Rightarrow> error + 'b) \<Rightarrow> error + 'b" where
  "and_then m f = (case m of Inl e \<Rightarrow> Inl e | Inr x \<Rightarrow> f x)"

text \<open>Truth value of an object, as \<^verbatim>\<open>if x:\<close> and \<^verbatim>\<open>not x\<close> test it.\<close>

fun truthy :: "json \<Rightarrow> bool" where
  "truthy JNull = False"
| "truthy (JBool b) = b"
| "truthy (JInt n) = (n \<noteq> 0)"
| "truthy (JFloat r) = (r \<noteq> 0)"
| "truthy (JStr s) = (s \<noteq> [])"
| "truthy (JList xs) = (xs \<noteq> [])"
| "truthy (JDict kvs) = (kvs \<noteq> [])"

text \<open>Numbers: \<^verbatim>\<open>bool\<close> is a subclass of \<^verbatim>\<open>int\<close> in Python.\<close>

fun int_val :: "json \<Rightarrow> int option" where
  "int_val (JBool b) = Some (if b then 1 else 0)"
| "int_val (JInt n) = Some n"
| "int_val _ = None"

fun num_val :: "json \<Rightarrow> rat option" where
  "num_val (JBool b) = Some (if b then 1 else 0)"
| "num_val (JInt n) = Some (of_int n)"
| "num_val (JFloat r) = Some r"
| "num_val _ = None"

text \<open>\<^verbatim>\<open>a == b\<close> on these values.\<close>

fun py_eq :: "json \<Rightarrow> json \<Rightarrow> bool" where
  "py_eq (JList xs) (JList ys) = list_all2 py_eq xs ys"
| "py_eq (JDict xs) (JDict ys) =
     (length xs = length ys \<and>
      list_all (\<lambda>(k, v). case map_of ys k of None \<Rightarrow> False | Some w \<Rightarrow> py_eq v w) xs)"
| "py_eq (JStr s) (JStr t) = (s = t)"
| "py_eq JNull JNull = True"
| "py_eq a b = (case (num_val a, num_val b) of (Some x, Some y) \<Rightarrow> x = y | _ \<Rightarrow> False)"

text \<open>\<^verbatim>\<open>a + b\<close>: integer or float addition, concatenation of strings and of lists.\<close>

definition py_add :: "json \<Rightarrow> json \<Rightarrow> error + json" where
  "py_add a b =
     (case (int_val a, int_val b) of
        (Some x, Some y) \<Rightarrow> Inr (JInt (x + y))
      | _ \<Rightarrow>
        (case (num_val a, num_val b) of
           (Some x, Some y) \<Rightarrow> Inr (JFloat (x + y))
         | _ \<Rightarrow>
           (case (a, b) of
              (JStr s, JStr t) \<Rightarrow> Inr (JStr (s @ t))
            | (JList xs, JList ys) \<Rightarrow> Inr (JList (xs @ ys))
            | _ \<Rightarrow> Inl TypeError)))"

text \<open>\<^verbatim>\<open>a / b\<close>: true division, always a float.\<close>

definition py_truediv :: "json \<Rightarrow> json \<Rightarrow> error + json" where
  "py_truediv a b =
     (case (num_val a, num_val b) of
        (Some x, Some y) \<Rightarrow> if y = 0 then Inl ZeroDivisionError else Inr (JFloat (x / y))
      | _ \<Rightarrow> Inl TypeError)"

text \<open>\<^verbatim>\<open>d.get(k, default)\<close>: only a dictionary has the method.\<close>

definition dict_get :: "json \<Rightarrow> string \<Rightarrow> json \<Rightarrow> error + json" where
  "dict_get d k dflt =
     (case d of
        JDict kvs \<Rightarrow> Inr (case map_of kvs k of None \<Rightarrow> dflt | Some v \<Rightarrow> v)
      | _ \<Rightarrow> Inl AttributeError)"

text \<open>\<^verbatim>\<open>d[k]\<close> for a string \<open>k\<close>: no other value can be subscripted by a string.\<close>

definition getitem :: "json \<Rightarrow> string \<Rightarrow> error + json" where
  "getitem d k =
     (case d of
        JDict kvs \<Rightarrow> (case map_of kvs k of None \<Rightarrow> Inl KeyError | Some v \<Rightarrow> Inr v)
      | _ \<Rightarrow> Inl TypeError)"

text \<open>\<^verbatim>\<open>d.items()\<close>.\<close>

definition dict_items :: "json \<Rightarrow> error + (string \<times> json) list" where
  "dict_items d = (case d of JDict kvs \<Rightarrow> Inr kvs | _ \<Rightarrow> Inl AttributeError)"

text \<open>
  \<^verbatim>\<open>d[k] = v\<close> on a dictionary: an existing key keeps its place and gets the new
  value, a new key goes to the end.
\<close>

fun dict_set :: "(string \<times> json) list \<Rightarrow> string \<Rightarrow> json \<Rightarrow> (string \<times> json) list" where
  "dict_set [] k v = [(k, v)]"
| "dict_set ((k', v') # kvs) k v =
     (if k' = k then (k, v) # kvs else (k', v') # dict_set kvs k v)"

text \<open>The same with the key as a value: lists and dictionaries are unhashable.\<close>

definition setitem :: "(string \<times> json) list \<Rightarrow> json \<Rightarrow> json \<Rightarrow> error + (string \<times> json) list" where
  "setitem kvs key v =
     (case key of
        JStr k \<Rightarrow> Inr (dict_set kvs k v)
      | JList _ \<Rightarrow> Inl TypeError
      | JDict _ \<Rightarrow> Inl TypeError
      | _ \<Rightarrow> Inl NonStringKey)"

text \<open>
  The elements a \<^verbatim>\<open>for\<close> loop visits: the items of a list, the keys of a dictionary,
  the characters of a string; nothing else is iterable.
\<close>

definition py_iter :: "json \<Rightarrow> error + json list" where
  "py_iter x =
     (case x of
        JList xs \<Rightarrow> Inr xs
      | JDict kvs \<Rightarrow> Inr (map (\<lambda>kv. JStr (fst kv)) kvs)
      | JStr s \<Rightarrow> Inr (map (\<lambda>c. JStr [c]) s)
      | _ \<Rightarrow> Inl TypeError)"

section \<open>The result normalizer\<close>

text \<open>\<^verbatim>\<open>FIOMonitor.convert_latency_to_us\<close>.\<close>

definition convert_latency_to_us :: "json \<Rightarrow> error + json" where
  "convert_latency_to_us latency_ns =
     and_then (dict_get latency_ns ''min'' (JInt 0)) (\<lambda>mn.
     and_then (py_truediv mn (JInt 1000)) (\<lambda>min_us.
     and_then (dict_get latency_ns ''max'' (JInt 0)) (\<lambda>mx.
     and_then (py_truediv mx (JInt 1000)) (\<lambda>max_us.
     and_then (dict_get latency_ns ''mean'' (JInt 0)) (\<lambda>me.
     and_then (py_truediv me (JInt 1000)) (\<lambda>mean_us.
     Inr (JDict [(''min'', min_us), (''max'', max_us), (''mean'', mean_us)])))))))"

text \<open>
  The dictionary that \<^verbatim>\<open>process_fio_results\<close> builds for the \<^verbatim>\<open>"read"\<close> and for the
  \<^verbatim>\<open>"write"\<close> statistics of a job; the source writes the same literal twice, once
  over \<^verbatim>\<open>read_stats\<close> and once over \<^verbatim>\<open>write_stats\<close>.
\<close>

definition stats_record :: "json \<Rightarrow> error + json" where
  "stats_record stats =
     and_then (dict_get stats ''iops'' (JInt 0)) (\<lambda>iops.
     and_then (dict_get stats ''bw_bytes'' (JInt 0)) (\<lambda>bw_bytes.
     and_then (dict_get stats ''bw_kbps'' (JInt 0)) (\<lambda>bw_kbps.
     and_then (dict_get stats ''lat_ns'' (JDict [])) (\<lambda>l1.
     and_then (dict_get l1 ''min'' (JInt 0)) (\<lambda>lat_min.
     and_then (dict_get stats ''lat_ns'' (JDict [])) (\<lambda>l2.
     and_then (dict_get l2 ''max'' (JInt 0)) (\<lambda>lat_max.
     and_then (dict_get stats ''lat_ns'' (JDict [])) (\<lambda>l3.
     and_then (dict_get l3 ''mean'' (JInt 0)) (\<lambda>lat_mean.
     and_then (dict_get stats ''clat_ns'' (JDict [])) (\<lambda>clat.
     and_then (dict_get clat ''percentile'' (JDict [])) (\<lambda>percentiles.
     and_then (dict_get stats ''lat_ns'' (JDict [])) (\<lambda>l4.
     and_then (convert_latency_to_us l4) (\<lambda>latency_us.
     Inr (JDict
       [(''iops'', iops),
        (''bw_bytes'', bw_bytes),
        (''bw_kbps'', bw_kbps),
        (''latency_ns'', JDict [(''min'', lat_min), (''max'', lat_max), (''mean'', lat_mean)]),
        (''percentiles'', percentiles),
        (''latency_us'', latency_us)]))))))))))))))"

text \<open>One pass of the loop body up to the assignment: the job's name and its sub-record.\<close>

definition job_results :: "json \<Rightarrow> error + (json \<times> json)" where
  "job_results job =
     and_then (dict_get job ''jobname'' (JStr ''unknown'')) (\<lambda>job_name.
     and_then (dict_get job ''read'' (JDict [])) (\<lambda>read_stats.
     and_then (dict_get job ''write'' (JDict [])) (\<lambda>write_stats.
     and_then (stats_record read_stats) (\<lambda>rd.
     and_then (stats_record write_stats) (\<lambda>wr.
     and_then (dict_get job ''usr_cpu'' (JInt 0)) (\<lambda>usr.
     and_then (dict_get job ''sys_cpu'' (JInt 0)) (\<lambda>sys.
     and_then (py_add usr sys) (\<lambda>cpu.
     Inr (job_name, JDict [(''read'', rd), (''write'', wr), (''cpu'', cpu)])))))))))"

text \<open>The loop over the jobs: \<^verbatim>\<open>results[job_name] = job_results\<close>.\<close>

fun process_jobs :: "(string \<times> json) list \<Rightarrow> json list \<Rightarrow> error + (string \<times> json) list" where
  "process_jobs results [] = Inr results"
| "process_jobs results (job # jobs) =
     and_then (job_results job) (\<lambda>(job_name, jr).
     and_then (setitem results job_name jr) (\<lambda>results'.
     process_jobs results' jobs))"

text \<open>
  \<^verbatim>\<open>FIOMonitor.process_fio_results\<close>. \<open>now\<close> is what
  \<^verbatim>\<open>datetime.now().isoformat()\<close> returns at the call.
\<close>

definition process_fio_results :: "string \<Rightarrow> json \<Rightarrow> json \<Rightarrow> error + json" where
  "process_fio_results now test_name fio_data =
     and_then (dict_get fio_data ''global options'' (JDict [])) (\<lambda>global_options.
     and_then (dict_get fio_data ''jobs'' (JList [])) (\<lambda>jobs.
     and_then (py_iter jobs) (\<lambda>js.
     and_then (process_jobs
                 [(''timestamp'', JStr now),
                  (''test_name'', test_name),
                  (''global_options'', global_options)] js) (\<lambda>results.
     Inr (JDict results)))))"

section \<open>The outside world\<close>

text \<open>
  What the program gets from outside the repository. The argument of type \<^typ>\<open>nat\<close>
  is the reading of a logical clock kept in the monitor's state, which advances at
  every interaction, so that two calls with equal arguments may differ in outcome.
  \<^item> \<open>py_str\<close> is Python's \<^verbatim>\<open>str\<close>;
  \<^item> \<open>subprocess_run t cmd timeout\<close> is \<^verbatim>\<open>subprocess.run(cmd, capture_output=True,
    text=True, timeout=timeout)\<close>: the process completes with a return code, its
    standard output and its standard error, the timeout expires, or the call raises
    something else (the tool is not installed, an argument is not a string);
  \<^item> \<open>json_loads\<close> is \<^verbatim>\<open>json.loads\<close>, \<open>None\<close> for a \<^verbatim>\<open>JSONDecodeError\<close>;
  \<^item> \<open>now_iso\<close> is \<^verbatim>\<open>datetime.now().isoformat()\<close> and \<open>now_stamp\<close> is
    \<^verbatim>\<open>datetime.now().strftime("%Y%m%d_%H%M%S")\<close>;
  \<^item> \<open>fromisoformat\<close> is \<^verbatim>\<open>datetime.fromisoformat\<close> on a string, \<open>None\<close> for a
    \<^verbatim>\<open>ValueError\<close>.
\<close>

datatype proc_outcome =
    Completed int string string
  | TimedOut
  | RunRaised

record os_env =
  py_str :: "json \<Rightarrow> string"
  subprocess_run :: "nat \<Rightarrow> json list \<Rightarrow> json \<Rightarrow> proc_outcome"
  json_loads :: "string \<Rightarrow> json option"
  now_iso :: "nat \<Rightarrow> string"
  now_stamp :: "nat \<Rightarrow> string"
  fromisoformat :: "string \<Rightarrow> json option"

text \<open>
  The monitor object: \<^verbatim>\<open>self.configs\<close>, \<^verbatim>\<open>self.history\<close>, and the files of
  \<^verbatim>\<open>self.output_dir\<close> by name, each holding the document that \<^verbatim>\<open>json.dump\<close> wrote
  (writes are taken to succeed and to be whole; the log is left out).
\<close>

record monitor =
  configs :: "json list"
  history :: "json list"
  files :: "string \<Rightarrow> json option"
  clock :: nat

section \<open>The benchmark invoker\<close>

text \<open>The loop that extends \<^verbatim>\<open>cmd\<close> by the flags.\<close>

fun extend_flags :: "(json \<Rightarrow> string) \<Rightarrow> json list \<Rightarrow> (string \<times> json) list \<Rightarrow> json list" where
  "extend_flags str cmd [] = cmd"
| "extend_flags str cmd ((key, val) # items) =
     (if key \<noteq> ''name''
      then extend_flags str (cmd @ [JStr (''--'' @ key), JStr (str val)]) items
      else extend_flags str cmd items)"

definition build_cmd :: "(json \<Rightarrow> string) \<Rightarrow> json \<Rightarrow> (string \<times> json) list \<Rightarrow> json list" where
  "build_cmd str test_name items = extend_flags str [JStr ''fio'', JStr ''--name'', test_name] items"

text \<open>The \<^verbatim>\<open>timeout=\<close> argument.\<close>

definition subprocess_timeout :: "json \<Rightarrow> error + json" where
  "subprocess_timeout parameters =
     and_then (dict_get parameters ''runtime'' (JInt 120)) (\<lambda>runtime.
     py_add runtime (JInt 30))"

text \<open>The body of the \<^verbatim>\<open>try\<close> statement.\<close>

definition try_body :: "os_env \<Rightarrow> nat \<Rightarrow> json \<Rightarrow> json \<Rightarrow> json list \<Rightarrow> error + json" where
  "try_body env t test_name parameters cmd =
     and_then (subprocess_timeout parameters) (\<lambda>timeout.
     case subprocess_run env t cmd timeout of
       TimedOut \<Rightarrow> Inl TimeoutExpired
     | RunRaised \<Rightarrow> Inl OSError
     | Completed returncode stdout stderr \<Rightarrow>
         if returncode \<noteq> 0 then Inr JNull
         else (case json_loads env stdout of
                 None \<Rightarrow> Inl JSONDecodeError
               | Some fio_output \<Rightarrow> process_fio_results (now_iso env t) test_name fio_output))"

text \<open>
  The three \<^verbatim>\<open>except\<close> clauses: each returns \<^verbatim>\<open>None\<close>, and the last one catches
  every \<^verbatim>\<open>Exception\<close>. \<open>NonStringKey\<close> is no exception of Python and stays what it
  is, outside the model.
\<close>

definition handlers :: "error + json \<Rightarrow> error + json" where
  "handlers outcome =
     (case outcome of
        Inl NonStringKey \<Rightarrow> Inl NonStringKey
      | Inl e \<Rightarrow> Inr JNull
      | Inr processed_results \<Rightarrow> Inr processed_results)"

text \<open>
  \<^verbatim>\<open>FIOMonitor.run_fio_test\<close>. The two subscripts and the loop over
  \<^verbatim>\<open>parameters.items()\<close> stand before the \<^verbatim>\<open>try\<close>.
\<close>

definition run_fio_test :: "os_env \<Rightarrow> nat \<Rightarrow> json \<Rightarrow> error + json" where
  "run_fio_test env t config =
     and_then (getitem config ''name'') (\<lambda>test_name.
     and_then (getitem config ''parameters'') (\<lambda>parameters.
     and_then (dict_items parameters) (\<lambda>items.
     handlers (try_body env t test_name parameters (build_cmd (py_str env) test_name items)))))"

section \<open>The history store\<close>

definition history_file :: string where
  "history_file = ''fio_history.json''"

text \<open>\<^verbatim>\<open>FIOMonitor.save_history\<close>.\<close>

definition save_history :: "monitor \<Rightarrow> monitor" where
  "save_history s = s\<lparr>files := (files s)(history_file \<mapsto> JList (history s))\<rparr>"

text \<open>\<^verbatim>\<open>FIOMonitor.save_results\<close>.\<close>

definition save_results :: "os_env \<Rightarrow> json \<Rightarrow> monitor \<Rightarrow> monitor" where
  "save_results env results s =
     (if \<not> truthy results then s
      else
        let filename = ''fio_results_'' @ now_stamp env (clock s) @ ''.json'';
            s1 = s\<lparr>files := (files s)(filename \<mapsto> results), clock := clock s + 1\<rparr>;
            s2 = s1\<lparr>history := history s1 @ [results]\<rparr>
        in save_history s2)"

text \<open>\<^verbatim>\<open>FIOAnalyzer.load_history\<close>, on the files of the same directory.\<close>

definition load_history :: "(string \<Rightarrow> json option) \<Rightarrow> json" where
  "load_history fs = (case fs history_file of None \<Rightarrow> JList [] | Some doc \<Rightarrow> doc)"

section \<open>The report generator\<close>

text \<open>The six metrics of one job, in the order the dictionary literal evaluates them.\<close>

definition p95_us :: "json \<Rightarrow> error + json" where
  "p95_us stats =
     and_then (getitem stats ''percentiles'') (\<lambda>percentiles.
     and_then (dict_get percentiles ''95.000000'' (JInt 0)) (\<lambda>p95.
     py_truediv p95 (JInt 1000)))"

definition job_metrics :: "json \<Rightarrow> error + json" where
  "job_metrics job_data =
     and_then (getitem job_data ''read'') (\<lambda>r1.
     and_then (getitem r1 ''iops'') (\<lambda>read_iops.
     and_then (getitem job_data ''write'') (\<lambda>w1.
     and_then (getitem w1 ''iops'') (\<lambda>write_iops.
     and_then (getitem job_data ''read'') (\<lambda>r2.
     and_then (p95_us r2) (\<lambda>read_p95.
     and_then (getitem job_data ''write'') (\<lambda>w2.
     and_then (p95_us w2) (\<lambda>write_p95.
     and_then (getitem job_data ''read'') (\<lambda>r3.
     and_then (getitem r3 ''bw_kbps'') (\<lambda>read_bw.
     and_then (getitem job_data ''write'') (\<lambda>w3.
     and_then (getitem w3 ''bw_kbps'') (\<lambda>write_bw.
     Inr (JDict
       [(''read_iops'', read_iops),
        (''write_iops'', write_iops),
        (''read_latency_us_p95'', read_p95),
        (''write_latency_us_p95'', write_p95),
        (''read_bandwidth_kbps'', read_bw),
        (''write_bandwidth_kbps'', write_bw)])))))))))))))"

definition metadata_keys :: "string list" where
  "metadata_keys = [''timestamp'', ''test_name'', ''global_options'']"

fun metrics_loop :: "(string \<times> json) list \<Rightarrow> (string \<times> json) list \<Rightarrow> error + (string \<times> json) list" where
  "metrics_loop metrics [] = Inr metrics"
| "metrics_loop metrics ((job_name, job_data) # items) =
     (if job_name \<in> set metadata_keys then metrics_loop metrics items
      else and_then (job_metrics job_data) (\<lambda>m.
           metrics_loop (dict_set metrics job_name m) items))"

text \<open>\<^verbatim>\<open>FIOMonitor.extract_key_metrics\<close>.\<close>

definition extract_key_metrics :: "json \<Rightarrow> error + json" where
  "extract_key_metrics result =
     and_then (dict_items result) (\<lambda>items.
     and_then (metrics_loop [] items) (\<lambda>metrics.
     Inr (JDict metrics)))"

text \<open>\<^verbatim>\<open>FIOMonitor.aggregate_test_results\<close>.\<close>

definition aggregate_test_results :: "json list \<Rightarrow> error + json" where
  "aggregate_test_results test_results =
     (if test_results = [] then Inr (JDict [])
      else
        let latest_result = last test_results in
        and_then (getitem latest_result ''timestamp'') (\<lambda>last_run.
        and_then (extract_key_metrics latest_result) (\<lambda>latest_metrics.
        Inr (JDict
          [(''last_run'', last_run),
           (''runs_count'', JInt (int (length test_results))),
           (''latest_metrics'', latest_metrics)]))))"

text \<open>\<^verbatim>\<open>[r for r in self.history if r.get("test_name") == test_name]\<close>.\<close>

fun results_of_test :: "json \<Rightarrow> json list \<Rightarrow> error + json list" where
  "results_of_test test_name [] = Inr []"
| "results_of_test test_name (r # rs) =
     and_then (dict_get r ''test_name'' JNull) (\<lambda>n.
     and_then (results_of_test test_name rs) (\<lambda>rest.
     Inr (if py_eq n test_name then r # rest else rest)))"

text \<open>The loop over \<^verbatim>\<open>self.configs\<close> that fills \<^verbatim>\<open>report["summary"]\<close>.\<close>

fun summary_loop :: "json list \<Rightarrow> (string \<times> json) list \<Rightarrow> json list \<Rightarrow> error + (string \<times> json) list" where
  "summary_loop hist summary [] = Inr summary"
| "summary_loop hist summary (test_config # cs) =
     and_then (getitem test_config ''name'') (\<lambda>test_name.
     and_then (results_of_test test_name hist) (\<lambda>test_results.
     if test_results \<noteq> []
     then and_then (aggregate_test_results test_results) (\<lambda>agg.
          and_then (setitem summary test_name agg) (\<lambda>summary'.
          summary_loop hist summary' cs))
     else summary_loop hist summary cs))"

definition report_file :: string where
  "report_file = ''performance_report.json''"

text \<open>
  \<^verbatim>\<open>FIOMonitor.generate_report\<close>: the value returned (\<open>JNull\<close> when there is no
  history) and the monitor after the report file is written.
\<close>

definition generate_report :: "os_env \<Rightarrow> monitor \<Rightarrow> error + (json \<times> monitor)" where
  "generate_report env s =
     (if history s = [] then Inr (JNull, s)
      else
        and_then (summary_loop (history s) [] (configs s)) (\<lambda>summary.
        let report = JDict
              [(''generated_at'', JStr (now_iso env (clock s))),
               (''total_tests'', JInt (int (length (history s)))),
               (''summary'', JDict summary)]
        in Inr (report, s\<lparr>files := (files s)(report_file \<mapsto> report), clock := clock s + 1\<rparr>)))"

section \<open>The monitoring loop\<close>

text \<open>
  The loop over \<^verbatim>\<open>self.configs\<close> of \<^verbatim>\<open>run_monitoring_cycle\<close> and of \<^verbatim>\<open>main\<close>:
  run the test, save a result that is not empty. An exception that leaves
  \<^verbatim>\<open>run_fio_test\<close> is caught nowhere and ends the loop.
\<close>

fun run_tests :: "os_env \<Rightarrow> json list \<Rightarrow> monitor \<Rightarrow> error + monitor" where
  "run_tests env [] s = Inr s"
| "run_tests env (config # cs) s =
     and_then (run_fio_test env (clock s) config) (\<lambda>results.
     let s1 = s\<lparr>clock := clock s + 1\<rparr>
     in run_tests env cs (if truthy results then save_results env results s1 else s1))"

text \<open>The single-run branch of \<^verbatim>\<open>main\<close>, which is also the body of one cycle.\<close>

definition single_run :: "os_env \<Rightarrow> monitor \<Rightarrow> error + monitor" where
  "single_run env s =
     and_then (run_tests env (configs s) s) (\<lambda>s1.
     and_then (generate_report env s1) (\<lambda>(report, s2).
     Inr s2))"

section \<open>The analyzer\<close>

text \<open>The row that \<^verbatim>\<open>create_timeseries_analysis\<close> appends for one job.\<close>

definition timeseries_row :: "json \<Rightarrow> json \<Rightarrow> string \<Rightarrow> json \<Rightarrow> error + json" where
  "timeseries_row timestamp test_name job_name job_data =
     and_then (getitem job_data ''read'') (\<lambda>r1.
     and_then (getitem r1 ''iops'') (\<lambda>read_iops.
     and_then (getitem job_data ''write'') (\<lambda>w1.
     and_then (getitem w1 ''iops'') (\<lambda>write_iops.
     and_then (getitem job_data ''read'') (\<lambda>r2.
     and_then (p95_us r2) (\<lambda>read_p95.
     and_then (getitem job_data ''write'') (\<lambda>w2.
     and_then (p95_us w2) (\<lambda>write_p95.
     and_then (getitem job_data ''read'') (\<lambda>r3.
     and_then (getitem r3 ''bw_kbps'') (\<lambda>read_bw.
     and_then (getitem job_data ''write'') (\<lambda>w3.
     and_then (getitem w3 ''bw_kbps'') (\<lambda>write_bw.
     Inr (JDict
       [(''timestamp'', timestamp),
        (''test_name'', test_name),
        (''job_name'', JStr job_name),
        (''read_iops'', read_iops),
        (''write_iops'', write_iops),
        (''read_latency_p95_us'', read_p95),
        (''write_latency_p95_us'', write_p95),
        (''read_bw_kbps'', read_bw),
        (''write_bw_kbps'', write_bw)])))))))))))))"

fun rows_loop :: "json \<Rightarrow> json \<Rightarrow> json list \<Rightarrow> (string \<times> json) list \<Rightarrow> error + json list" where
  "rows_loop timestamp test_name data [] = Inr data"
| "rows_loop timestamp test_name data ((job_name, job_data) # items) =
     (if job_name \<in> set metadata_keys then rows_loop timestamp test_name data items
      else and_then (timeseries_row timestamp test_name job_name job_data) (\<lambda>row.
           rows_loop timestamp test_name (data @ [row]) items))"

text \<open>The body of the loop over the history: the rows of one result, appended to \<open>data\<close>.\<close>

definition result_rows :: "os_env \<Rightarrow> json list \<Rightarrow> json \<Rightarrow> error + json list" where
  "result_rows env data result =
     and_then (getitem result ''timestamp'') (\<lambda>ts.
     and_then (case ts of
                 JStr s \<Rightarrow> (case fromisoformat env s of None \<Rightarrow> Inl ValueError | Some d \<Rightarrow> Inr d)
               | _ \<Rightarrow> Inl TypeError) (\<lambda>timestamp.
     and_then (getitem result ''test_name'') (\<lambda>test_name.
     and_then (dict_items result) (\<lambda>items.
     rows_loop timestamp test_name data items))))"

section \<open>Initial state, well-formed inputs and worked examples\<close>

text \<open>
  \<^verbatim>\<open>FIOMonitor.__init__\<close>: the configurations are loaded, the history starts empty
  (a history file left in the directory by an earlier process is not read), and
  \<open>dir\<close> is what the output directory holds.
\<close>

definition init_monitor :: "json list \<Rightarrow> (string \<Rightarrow> json option) \<Rightarrow> monitor" where
  "init_monitor cfgs dir = \<lparr>configs = cfgs, history = [], files = dir, clock = 0\<rparr>"

text \<open>
  The nanosecond value of a field of a latency summary: zero when the field is absent,
  undefined when it is not a number.
\<close>

definition ns_of :: "(string \<times> json) list \<Rightarrow> string \<Rightarrow> rat option" where
  "ns_of latency_ns k = (case map_of latency_ns k of None \<Rightarrow> Some 0 | Some v \<Rightarrow> num_val v)"

text \<open>Decimal digits, for the clock readings and the integers of the examples.\<close>

fun digits :: "nat \<Rightarrow> string" where
  "digits n = (if n < 10 then [''0123456789'' ! n] else digits (n div 10) @ [''0123456789'' ! (n mod 10)])"

text \<open>
  An environment for the examples. Its \<open>py_str\<close> is Python's \<^verbatim>\<open>str\<close> on strings and
  on non-negative integers, the only values the example configurations hold. The
  tool prints something that is not JSON at its first invocation and the document
  \<^verbatim>\<open>{}\<close> afterwards.
\<close>

definition example_env :: os_env where
  "example_env =
     \<lparr>py_str = (\<lambda>v. case v of JStr s \<Rightarrow> s | JInt n \<Rightarrow> digits (nat n) | _ \<Rightarrow> []),
      subprocess_run = (\<lambda>t cmd timeout. Completed 0 (if t = 0 then ''fio: not json'' else ''{}'') []),
      json_loads = (\<lambda>s. if s = ''{}'' then Some (JDict []) else None),
      now_iso = (\<lambda>t. ''2026-01-01T00:00:0'' @ digits t),
      now_stamp = (\<lambda>t. ''20260101_00000'' @ digits t),
      fromisoformat = (\<lambda>s. Some (JStr s))\<rparr>"

text \<open>The configuration of the end-to-end scenario, with a \<^verbatim>\<open>name\<close> parameter added.\<close>

definition example_config :: json where
  "example_config =
     JDict [(''name'', JStr ''t1''),
            (''parameters'',
             JDict [(''rw'', JStr ''randrw''), (''name'', JStr ''other''),
                    (''bs'', JStr ''8k''), (''runtime'', JInt 10)])]"

section \<open>The benchmark tool's schema\<close>

text \<open>
  A benchmark document, with any field absent: \<^verbatim>\<open>jobs\<close> is a list of objects; a job
  has a string \<^verbatim>\<open>jobname\<close>, objects \<^verbatim>\<open>read\<close> and \<^verbatim>\<open>write\<close> and numbers
  \<^verbatim>\<open>usr_cpu\<close> and \<^verbatim>\<open>sys_cpu\<close>; a statistics object has numbers \<^verbatim>\<open>iops\<close>,
  \<^verbatim>\<open>bw_bytes\<close> and \<^verbatim>\<open>bw_kbps\<close>, an object \<^verbatim>\<open>lat_ns\<close> with numbers \<^verbatim>\<open>min\<close>,
  \<^verbatim>\<open>max\<close> and \<^verbatim>\<open>mean\<close>, and an object \<^verbatim>\<open>clat_ns\<close> whose \<^verbatim>\<open>percentile\<close> is an
  object of numbers. Keys the schema does not name are allowed everywhere. This is the
  input format the specification gives for the normalizer; the predicates state it, they
  are not part of the program.
\<close>

fun is_number :: "json \<Rightarrow> bool" where
  "is_number (JInt n) = True"
| "is_number (JFloat r) = True"
| "is_number _ = False"

fun is_string :: "json \<Rightarrow> bool" where
  "is_string (JStr s) = True"
| "is_string _ = False"

definition opt_field :: "(string \<times> json) list \<Rightarrow> string \<Rightarrow> (json \<Rightarrow> bool) \<Rightarrow> bool" where
  "opt_field kvs k P = (case map_of kvs k of None \<Rightarrow> True | Some v \<Rightarrow> P v)"

definition schema_lat :: "json \<Rightarrow> bool" where
  "schema_lat l =
     (case l of
        JDict kvs \<Rightarrow>
          opt_field kvs ''min'' is_number \<and> opt_field kvs ''max'' is_number \<and>
          opt_field kvs ''mean'' is_number
      | _ \<Rightarrow> False)"

definition schema_percentile :: "json \<Rightarrow> bool" where
  "schema_percentile p = (case p of JDict kvs \<Rightarrow> list_all (\<lambda>kv. is_number (snd kv)) kvs | _ \<Rightarrow> False)"

definition schema_clat :: "json \<Rightarrow> bool" where
  "schema_clat c = (case c of JDict kvs \<Rightarrow> opt_field kvs ''percentile'' schema_percentile | _ \<Rightarrow> False)"

definition schema_stats :: "json \<Rightarrow> bool" where
  "schema_stats st =
     (case st of
        JDict kvs \<Rightarrow>
          opt_field kvs ''iops'' is_number \<and> opt_field kvs ''bw_bytes'' is_number \<and>
          opt_field kvs ''bw_kbps'' is_number \<and> opt_field kvs ''lat_ns'' schema_lat \<and>
          opt_field kvs ''clat_ns'' schema_clat
      | _ \<Rightarrow> False)"

definition schema_job :: "json \<Rightarrow> bool" where
  "schema_job job =
     (case job of
        JDict kvs \<Rightarrow>
          opt_field kvs ''jobname'' is_string \<and> opt_field kvs ''read'' schema_stats \<and>
          opt_field kvs ''write'' schema_stats \<and> opt_field kvs ''usr_cpu'' is_number \<and>
          opt_field kvs ''sys_cpu'' is_number
      | _ \<Rightarrow> False)"

definition schema_jobs :: "json \<Rightarrow> bool" where
  "schema_jobs js = (case js of JList jobs \<Rightarrow> list_all schema_job jobs | _ \<Rightarrow> False)"

definition schema_doc :: "json \<Rightarrow> bool" where
  "schema_doc fio_data = (case fio_data of JDict kvs \<Rightarrow> opt_field kvs ''jobs'' schema_jobs | _ \<Rightarrow> False)"

text \<open>The jobs of a document, none when the field is absent.\<close>

definition jobs_of :: "json \<Rightarrow> json list" where
  "jobs_of fio_data =
     (case fio_data of
        JDict kvs \<Rightarrow> (case map_of kvs ''jobs'' of Some (JList jobs) \<Rightarrow> jobs | _ \<Rightarrow> [])
      | _ \<Rightarrow> [])"

text \<open>The value found by following keys into nested dictionaries.\<close>

fun lookup_path :: "json \<Rightarrow> string list \<Rightarrow> json option" where
  "lookup_path v [] = Some v"
| "lookup_path (JDict kvs) (k # ks) =
     (case map_of kvs k of None \<Rightarrow> None | Some w \<Rightarrow> lookup_path w ks)"
| "lookup_path v (k # ks) = None"

text \<open>
  What a sub-record needs for the report and the analyzer to read it: \<^verbatim>\<open>read\<close> and
  \<^verbatim>\<open>write\<close> with \<^verbatim>\<open>iops\<close>, \<^verbatim>\<open>bw_kbps\<close> and a percentile table whose p95 entry, if
  there is one, is a number.
\<close>

definition side_ready :: "json \<Rightarrow> bool" where
  "side_ready st =
     (lookup_path st [''iops''] \<noteq> None \<and> lookup_path st [''bw_kbps''] \<noteq> None \<and>
      (case lookup_path st [''percentiles''] of
         Some (JDict pt) \<Rightarrow> ns_of pt ''95.000000'' \<noteq> None
       | _ \<Rightarrow> False))"

definition metrics_ready :: "json \<Rightarrow> bool" where
  "metrics_ready job_data =
     (case (lookup_path job_data [''read''], lookup_path job_data [''write'']) of
        (Some rd, Some wr) \<Rightarrow> side_ready rd \<and> side_ready wr
      | _ \<Rightarrow> False)"

text \<open>A history record the report generator can read.\<close>

fun is_dict :: "json \<Rightarrow> bool" where
  "is_dict (JDict kvs) = True"
| "is_dict _ = False"

definition is_ok :: "error + 'a \<Rightarrow> bool" where
  "is_ok m = (case m of Inl e \<Rightarrow> False | Inr x \<Rightarrow> True)"

definition report_ready :: "json \<Rightarrow> bool" where
  "report_ready r = (is_dict r \<and> is_ok (getitem r ''timestamp'') \<and> is_ok (extract_key_metrics r))"

text \<open>The value of \<^verbatim>\<open>d.get(k, default)\<close> when \<open>d\<close> is the dictionary \<open>kvs\<close>.\<close>

definition field :: "(string \<times> json) list \<Rightarrow> string \<Rightarrow> json \<Rightarrow> json" where
  "field kvs k dflt = (case map_of kvs k of None \<Rightarrow> dflt | Some v \<Rightarrow> v)"



text \<open>The records of the history whose test name is \<open>n\<close>.\<close>

definition runs_of :: "string \<Rightarrow> json list \<Rightarrow> json list" where
  "runs_of n hist = filter (\<lambda>r. getitem r ''test_name'' = Inr (JStr n)) hist"


definition partial_result :: json where
  "partial_result = JDict
     [(''timestamp'', JStr ''2026-01-01T00:00:00''), (''test_name'', JStr ''t1''),
      (''global_options'', JDict []),
      (''j1'',
       JDict
        [(''read'',
          JDict
           [(''iops'', JInt 100), (''bw_bytes'', JInt 0), (''bw_kbps'', JInt 0),
            (''latency_ns'', JDict [(''min'', JInt 0), (''max'', JInt 0), (''mean'', JInt 2000)]),
            (''percentiles'', JDict []),
            (''latency_us'', JDict [(''min'', JFloat 0), (''max'', JFloat 0), (''mean'', JFloat 2)])]),
         (''write'',
          JDict
           [(''iops'', JInt 0), (''bw_bytes'', JInt 0), (''bw_kbps'', JInt 0),
            (''latency_ns'', JDict [(''min'', JInt 0), (''max'', JInt 0), (''mean'', JInt 0)]),
            (''percentiles'', JDict []),
            (''latency_us'', JDict [(''min'', JFloat 0), (''max'', JFloat 0), (''mean'', JFloat 0)])]),
         (''cpu'', JFloat (3 / 2))])]"


definition scenario_result :: json where
  "scenario_result = JDict
       [(''timestamp'', JStr ''2026-01-01T00:00:00''), (''test_name'', JStr ''t1''),
        (''global_options'', JDict []),
        (''j1'',
         JDict
          [(''read'',
            JDict
             [(''iops'', JInt 100), (''bw_bytes'', JInt 0),
              (''bw_kbps'', JInt 800),
              (''latency_ns'',
               JDict
                [(''min'', JInt 1000), (''max'', JInt 5000),
                 (''mean'', JInt 2000)]),
              (''percentiles'', JDict [(''95.000000'', JInt 4000)]),
              (''latency_us'',
               JDict
                [(''min'', JFloat 1), (''max'', JFloat 5),
                 (''mean'', JFloat 2)])]),
           (''write'',
            JDict
             [(''iops'', JInt 50), (''bw_bytes'', JInt 0),
              (''bw_kbps'', JInt 400),
              (''latency_ns'',
               JDict
                [(''min'', JInt 2000), (''max'', JInt 6000),
                 (''mean'', JInt 3000)]),
              (''percentiles'', JDict [(''95.000000'', JInt 5000)]),
              (''latency_us'',
               JDict
                [(''min'', JFloat 2), (''max'', JFloat 6),
                 (''mean'', JFloat 3)])]),
           (''cpu'', JInt 0)])]"

text \<open>
  A monitor with two configured tests, \<^verbatim>\<open>A\<close> and \<^verbatim>\<open>B\<close>, and three runs of
  \<^verbatim>\<open>A\<close> in its history (results of job-less documents).
\<close>

definition run_record :: "string \<Rightarrow> string \<Rightarrow> json" where
  "run_record now test_name =
     JDict [(''timestamp'', JStr now), (''test_name'', JStr test_name), (''global_options'', JDict [])]"

definition three_runs_monitor :: monitor where
  "three_runs_monitor =
     \<lparr>configs = [JDict [(''name'', JStr ''A''), (''parameters'', JDict [])],
                 JDict [(''name'', JStr ''B''), (''parameters'', JDict [])]],
      history = [run_record ''2026-01-01T00:00:01'' ''A'',
                 run_record ''2026-01-01T00:00:02'' ''A'',
                 run_record ''2026-01-01T00:00:03'' ''A''],
      files = Map.empty,
      clock = 7\<rparr>"

text \<open>
  A document with a job named \<^verbatim>\<open>timestamp\<close> and a job without a name, the sub-record
  of a job without statistics, and the normal form of the document.
\<close>

definition zero_record :: json where
  "zero_record =
     JDict
       [(''read'',
         JDict
           [(''iops'', JInt 0), (''bw_bytes'', JInt 0), (''bw_kbps'', JInt 0),
            (''latency_ns'', JDict [(''min'', JInt 0), (''max'', JInt 0), (''mean'', JInt 0)]),
            (''percentiles'', JDict []),
            (''latency_us'', JDict [(''min'', JFloat 0), (''max'', JFloat 0), (''mean'', JFloat 0)])]),
        (''write'',
         JDict
           [(''iops'', JInt 0), (''bw_bytes'', JInt 0), (''bw_kbps'', JInt 0),
            (''latency_ns'', JDict [(''min'', JInt 0), (''max'', JInt 0), (''mean'', JInt 0)]),
            (''percentiles'', JDict []),
            (''latency_us'', JDict [(''min'', JFloat 0), (''max'', JFloat 0), (''mean'', JFloat 0)])]),
        (''cpu'', JInt 0)]"

definition shadow_jobs :: "json list" where
  "shadow_jobs = [JDict [(''jobname'', JStr ''timestamp'')], JDict []]"

definition shadow_results :: "(string \<times> json) list" where
  "shadow_results =
     [(''timestamp'', zero_record), (''test_name'', JStr ''t1''),
      (''global_options'', JDict []), (''unknown'', zero_record)]"

section \<open>Basic facts\<close>

lemma and_then_Inr [simp]: "and_then (Inr x) f = f x"
  by (simp add: and_then_def)

lemma and_then_Inl [simp]: "and_then (Inl e) f = Inl e"
  by (simp add: and_then_def)

lemma dict_get_JDict [simp]:
  "dict_get (JDict kvs) k dflt = Inr (case map_of kvs k of None \<Rightarrow> dflt | Some v \<Rightarrow> v)"
  by (simp add: dict_get_def)

lemma getitem_JDict [simp]:
  "getitem (JDict kvs) k = (case map_of kvs k of None \<Rightarrow> Inl KeyError | Some v \<Rightarrow> Inr v)"
  by (simp add: getitem_def)

lemma dict_items_JDict [simp]: "dict_items (JDict kvs) = Inr kvs"
  by (simp add: dict_items_def)

lemma extend_flags_append:
  "extend_flags str cmd items =
     cmd @ concat (map (\<lambda>(k, v). [JStr (''--'' @ k), JStr (str v)])
                       (filter (\<lambda>(k, v). k \<noteq> ''name'') items))"
  by (induction items arbitrary: cmd) auto

lemma results_file_not_history: "''fio_results_'' @ stamp @ ''.json'' \<noteq> history_file"
  by (simp add: history_file_def)

lemma save_results_truthy:
  "truthy r \<Longrightarrow>
   history (save_results env r s) = history s @ [r] \<and>
   files (save_results env r s) history_file = Some (JList (history s @ [r]))"
  by (simp add: save_results_def save_history_def Let_def)

lemma save_all_history:
  "\<forall>r\<in>set rs. truthy r \<Longrightarrow>
   history (foldl (\<lambda>s r. save_results env r s) s rs) = history s @ rs"
  by (induction rs arbitrary: s) (simp_all add: save_results_truthy)

lemma save_all_file:
  "\<forall>r\<in>set rs. truthy r \<Longrightarrow> rs \<noteq> [] \<Longrightarrow>
   files (foldl (\<lambda>s r. save_results env r s) s rs) history_file = Some (JList (history s @ rs))"
proof (induction rs arbitrary: s rule: rev_induct)
  case Nil
  then show ?case by simp
next
  case (snoc r rs)
  then show ?case
    by (simp add: save_results_truthy save_all_history)
qed

lemma map_of_dict_set: "map_of (dict_set kvs k v) = (map_of kvs)(k \<mapsto> v)"
  by (induction kvs) (auto simp add: fun_eq_iff)

lemma fst_dict_set: "fst ` set (dict_set kvs k v) = insert k (fst ` set kvs)"
  by (induction kvs) (auto split: if_splits simp add: rev_image_eqI)

lemma set_dict_set: "set (dict_set kvs k v) \<subseteq> insert (k, v) (set kvs)"
  by (induction kvs) (auto split: if_splits)

lemma distinct_dict_set: "distinct (map fst kvs) \<Longrightarrow> distinct (map fst (dict_set kvs k v))"
  by (induction kvs) (auto simp add: fst_dict_set)

lemma opt_field_cases:
  "opt_field kvs k P \<Longrightarrow> map_of kvs k = None \<or> (\<exists>v. map_of kvs k = Some v \<and> P v)"
  by (auto simp add: opt_field_def split: option.splits)

lemma is_number_num_val: "is_number v \<Longrightarrow> \<exists>r. num_val v = Some r"
  by (cases v) auto

lemma schema_lat_ns_of:
  "schema_lat (JDict lat) \<Longrightarrow> \<exists>r. ns_of lat k = Some r" if "k \<in> {''min'', ''max'', ''mean''}"
  using that
  by (auto simp add: schema_lat_def ns_of_def opt_field_def dest: is_number_num_val split: option.splits)

lemma convert_latency_to_us_ns_of:
  assumes "ns_of lat ''min'' = Some a" "ns_of lat ''max'' = Some b" "ns_of lat ''mean'' = Some c"
  shows "convert_latency_to_us (JDict lat) =
           Inr (JDict [(''min'', JFloat (a / 1000)), (''max'', JFloat (b / 1000)), (''mean'', JFloat (c / 1000))])"
  using assms
  by (auto simp add: convert_latency_to_us_def ns_of_def py_truediv_def split: option.splits)

lemma stats_record_schema:
  assumes "schema_stats (JDict kvs)"
  shows "\<exists>lat clat a b c.
           field kvs ''lat_ns'' (JDict []) = JDict lat \<and>
           field kvs ''clat_ns'' (JDict []) = JDict clat \<and>
           ns_of lat ''min'' = Some a \<and> ns_of lat ''max'' = Some b \<and> ns_of lat ''mean'' = Some c \<and>
           stats_record (JDict kvs) =
             Inr (JDict
               [(''iops'', field kvs ''iops'' (JInt 0)),
                (''bw_bytes'', field kvs ''bw_bytes'' (JInt 0)),
                (''bw_kbps'', field kvs ''bw_kbps'' (JInt 0)),
                (''latency_ns'',
                   JDict [(''min'', field lat ''min'' (JInt 0)),
                          (''max'', field lat ''max'' (JInt 0)),
                          (''mean'', field lat ''mean'' (JInt 0))]),
                (''percentiles'', field clat ''percentile'' (JDict [])),
                (''latency_us'',
                   JDict [(''min'', JFloat (a / 1000)),
                          (''max'', JFloat (b / 1000)),
                          (''mean'', JFloat (c / 1000))])])"
proof -
  from assms have l: "opt_field kvs ''lat_ns'' schema_lat" and cl: "opt_field kvs ''clat_ns'' schema_clat"
    by (simp_all add: schema_stats_def)
  have "schema_lat (field kvs ''lat_ns'' (JDict []))"
    using l by (auto simp add: field_def opt_field_def schema_lat_def split: option.splits)
  then obtain lat where lat: "field kvs ''lat_ns'' (JDict []) = JDict lat" and sl: "schema_lat (JDict lat)"
    by (cases "field kvs ''lat_ns'' (JDict [])") (auto simp add: schema_lat_def)
  have "schema_clat (field kvs ''clat_ns'' (JDict []))"
    using cl by (auto simp add: field_def opt_field_def schema_clat_def split: option.splits)
  then obtain clat where clat: "field kvs ''clat_ns'' (JDict []) = JDict clat"
    by (cases "field kvs ''clat_ns'' (JDict [])") (auto simp add: schema_clat_def)
  from sl obtain a b c where
    ns: "ns_of lat ''min'' = Some a" "ns_of lat ''max'' = Some b" "ns_of lat ''mean'' = Some c"
    using schema_lat_ns_of [of "''min''" lat] schema_lat_ns_of [of "''max''" lat]
      schema_lat_ns_of [of "''mean''" lat]
    by auto
  have "stats_record (JDict kvs) =
             Inr (JDict
               [(''iops'', field kvs ''iops'' (JInt 0)),
                (''bw_bytes'', field kvs ''bw_bytes'' (JInt 0)),
                (''bw_kbps'', field kvs ''bw_kbps'' (JInt 0)),
                (''latency_ns'',
                   JDict [(''min'', field lat ''min'' (JInt 0)),
                          (''max'', field lat ''max'' (JInt 0)),
                          (''mean'', field lat ''mean'' (JInt 0))]),
                (''percentiles'', field clat ''percentile'' (JDict [])),
                (''latency_us'',
                   JDict [(''min'', JFloat (a / 1000)),
                          (''max'', JFloat (b / 1000)),
                          (''mean'', JFloat (c / 1000))])])"
    using lat clat convert_latency_to_us_ns_of [OF ns]
    by (simp add: stats_record_def field_def)
  with lat clat ns show ?thesis by blast
qed



lemma py_add_numbers: "is_number a \<Longrightarrow> is_number b \<Longrightarrow> \<exists>c. py_add a b = Inr c"
  by (cases a; cases b) (simp_all add: py_add_def)

lemma schema_stats_field:
  "opt_field kvs side schema_stats \<Longrightarrow> \<exists>st. field kvs side (JDict []) = JDict st \<and> schema_stats (JDict st)"
proof -
  assume "opt_field kvs side schema_stats"
  then have s: "schema_stats (field kvs side (JDict []))"
    by (auto simp add: opt_field_def field_def schema_stats_def split: option.splits)
  then show ?thesis
    by (cases "field kvs side (JDict [])") (auto simp add: schema_stats_def)
qed

lemma job_results_schema:
  assumes "schema_job job"
  shows "\<exists>kvs name rd wr cpu.
           job = JDict kvs \<and>
           field kvs ''jobname'' (JStr ''unknown'') = JStr name \<and>
           stats_record (field kvs ''read'' (JDict [])) = Inr rd \<and>
           stats_record (field kvs ''write'' (JDict [])) = Inr wr \<and>
           py_add (field kvs ''usr_cpu'' (JInt 0)) (field kvs ''sys_cpu'' (JInt 0)) = Inr cpu \<and>
           job_results job = Inr (JStr name, JDict [(''read'', rd), (''write'', wr), (''cpu'', cpu)])"
proof -
  from assms obtain kvs where job: "job = JDict kvs"
    by (cases job) (auto simp add: schema_job_def)
  with assms have f: "opt_field kvs ''jobname'' is_string" "opt_field kvs ''read'' schema_stats"
    "opt_field kvs ''write'' schema_stats" "opt_field kvs ''usr_cpu'' is_number"
    "opt_field kvs ''sys_cpu'' is_number"
    by (simp_all add: schema_job_def)
  have "is_string (field kvs ''jobname'' (JStr ''unknown''))"
    using f(1) by (auto simp add: opt_field_def field_def split: option.splits)
  then obtain name where name: "field kvs ''jobname'' (JStr ''unknown'') = JStr name"
    by (cases "field kvs ''jobname'' (JStr ''unknown'')") auto
  obtain rs where rs: "field kvs ''read'' (JDict []) = JDict rs" "schema_stats (JDict rs)"
    using schema_stats_field [OF f(2)] by blast
  obtain ws where ws: "field kvs ''write'' (JDict []) = JDict ws" "schema_stats (JDict ws)"
    using schema_stats_field [OF f(3)] by blast
  obtain rd where rd: "stats_record (JDict rs) = Inr rd"
    using stats_record_schema [OF rs(2)] by blast
  obtain wr where wr: "stats_record (JDict ws) = Inr wr"
    using stats_record_schema [OF ws(2)] by blast
  have "is_number (field kvs ''usr_cpu'' (JInt 0))" "is_number (field kvs ''sys_cpu'' (JInt 0))"
    using f(4,5) by (auto simp add: opt_field_def field_def split: option.splits)
  then obtain cpu where
    cpu: "py_add (field kvs ''usr_cpu'' (JInt 0)) (field kvs ''sys_cpu'' (JInt 0)) = Inr cpu"
    using py_add_numbers by blast
  have "job_results job = Inr (JStr name, JDict [(''read'', rd), (''write'', wr), (''cpu'', cpu)])"
    using job name rs(1) ws(1) rd wr cpu
    by (simp add: job_results_def field_def)
  with job name rs(1) ws(1) rd wr cpu show ?thesis
    by auto
qed

lemma job_results_name:
  "job_results job = Inr (name, rec) \<Longrightarrow> dict_get job ''jobname'' (JStr ''unknown'') = Inr name"
  by (cases job) (auto simp add: job_results_def dict_get_def and_then_def split: sum.splits)

lemma process_jobs_Cons_Inr:
  "process_jobs results (job # jobs) = Inr results' \<Longrightarrow>
   \<exists>name rec. job_results job = Inr (JStr name, rec) \<and>
              process_jobs (dict_set results name rec) jobs = Inr results'"
  by (auto simp add: and_then_def setitem_def split: sum.splits json.splits)

lemma process_jobs_Cons_step:
  "job_results job = Inr (JStr name, rec) \<Longrightarrow>
   process_jobs results (job # jobs) = process_jobs (dict_set results name rec) jobs"
  by (simp add: setitem_def)


lemma process_jobs_keys_mono:
  "process_jobs results jobs = Inr results' \<Longrightarrow> fst ` set results \<subseteq> fst ` set results'"
proof (induction jobs arbitrary: results)
  case Nil
  then show ?case by simp
next
  case (Cons job jobs)
  from process_jobs_Cons_Inr [OF Cons.prems] obtain name rec where
    "process_jobs (dict_set results name rec) jobs = Inr results'"
    by blast
  from Cons.IH [OF this] show ?case
    by (auto simp add: fst_dict_set)
qed

lemma process_jobs_keys:
  "process_jobs results jobs = Inr results' \<Longrightarrow> job \<in> set jobs \<Longrightarrow>
   \<exists>name rec. job_results job = Inr (JStr name, rec) \<and> name \<in> fst ` set results'"
proof (induction jobs arbitrary: results)
  case Nil
  then show ?case by simp
next
  case (Cons j jobs)
  from process_jobs_Cons_Inr [OF Cons.prems(1)] obtain name rec where
    j: "job_results j = Inr (JStr name, rec)" and
    rest: "process_jobs (dict_set results name rec) jobs = Inr results'"
    by blast
  show ?case
  proof (cases "job = j")
    case True
    have "name \<in> fst ` set (dict_set results name rec)"
      by (simp add: fst_dict_set)
    with process_jobs_keys_mono [OF rest] j True show ?thesis
      by blast
  next
    case False
    with Cons.prems(2) have "job \<in> set jobs" by simp
    from Cons.IH [OF rest this] show ?thesis .
  qed
qed

lemma process_jobs_origin:
  "process_jobs results jobs = Inr results' \<Longrightarrow> map_of results' name = Some rec \<Longrightarrow>
   map_of results name = Some rec \<or> (\<exists>job\<in>set jobs. job_results job = Inr (JStr name, rec))"
proof (induction jobs arbitrary: results)
  case Nil
  then show ?case by simp
next
  case (Cons j jobs)
  from process_jobs_Cons_Inr [OF Cons.prems(1)] obtain n r where
    j: "job_results j = Inr (JStr n, r)" and
    rest: "process_jobs (dict_set results n r) jobs = Inr results'"
    by blast
  from Cons.IH [OF rest Cons.prems(2)]
  have "map_of (dict_set results n r) name = Some rec \<or>
        (\<exists>job\<in>set jobs. job_results job = Inr (JStr name, rec))" .
  then show ?case
    using j by (auto simp add: map_of_dict_set split: if_splits)
qed

lemma process_jobs_distinct:
  "process_jobs results jobs = Inr results' \<Longrightarrow> distinct (map fst results) \<Longrightarrow>
   distinct (map fst results')"
proof (induction jobs arbitrary: results)
  case Nil
  then show ?case by simp
next
  case (Cons j jobs)
  from process_jobs_Cons_Inr [OF Cons.prems(1)] obtain n r where
    rest: "process_jobs (dict_set results n r) jobs = Inr results'"
    by blast
  from Cons.IH [OF rest distinct_dict_set [OF Cons.prems(2)]] show ?case .
qed

lemma process_jobs_untouched:
  "process_jobs results jobs = Inr results' \<Longrightarrow>
   \<forall>job\<in>set jobs. dict_get job ''jobname'' (JStr ''unknown'') \<noteq> Inr (JStr name) \<Longrightarrow>
   map_of results' name = map_of results name"
proof (induction jobs arbitrary: results)
  case Nil
  then show ?case by simp
next
  case (Cons j jobs)
  from process_jobs_Cons_Inr [OF Cons.prems(1)] obtain n r where
    j: "job_results j = Inr (JStr n, r)" and
    rest: "process_jobs (dict_set results n r) jobs = Inr results'"
    by blast
  from job_results_name [OF j] Cons.prems(2) have "n \<noteq> name"
    by auto
  moreover from Cons.IH [OF rest] Cons.prems(2)
  have "map_of results' name = map_of (dict_set results n r) name"
    by simp
  ultimately show ?case
    by (simp add: map_of_dict_set)
qed

lemma process_jobs_last:
  "process_jobs results (js1 @ job # js2) = Inr results' \<Longrightarrow>
   job_results job = Inr (JStr name, rec) \<Longrightarrow>
   \<forall>j\<in>set js2. dict_get j ''jobname'' (JStr ''unknown'') \<noteq> Inr (JStr name) \<Longrightarrow>
   map_of results' name = Some rec"
proof (induction js1 arbitrary: results)
  case Nil
  then have "process_jobs (dict_set results name rec) js2 = Inr results'"
    using process_jobs_Cons_step [of job name rec results js2]
    by (simp del: process_jobs.simps)
  from process_jobs_untouched [OF this Nil.prems(3)] show ?case
    by (simp add: map_of_dict_set)
next
  case (Cons j js1)
  from Cons.prems(1) have "process_jobs results (j # (js1 @ job # js2)) = Inr results'"
    by simp
  from process_jobs_Cons_Inr [OF this] obtain n r where
    rest: "process_jobs (dict_set results n r) (js1 @ job # js2) = Inr results'"
    by blast
  from Cons.IH [OF rest Cons.prems(2,3)] show ?case .
qed




lemma schema_doc_jobs:
  assumes "schema_doc fio_data"
  shows "\<exists>kvs. fio_data = JDict kvs \<and>
           field kvs ''jobs'' (JList []) = JList (jobs_of fio_data) \<and>
           (\<forall>job\<in>set (jobs_of fio_data). schema_job job)"
proof -
  from assms obtain kvs where d: "fio_data = JDict kvs" and o: "opt_field kvs ''jobs'' schema_jobs"
    by (cases fio_data) (auto simp add: schema_doc_def)
  show ?thesis
  proof (cases "map_of kvs ''jobs''")
    case None
    with d show ?thesis by (simp add: field_def jobs_of_def)
  next
    case (Some js)
    with o have "schema_jobs js" by (simp add: opt_field_def)
    then obtain jobs where "js = JList jobs" "list_all schema_job jobs"
      by (cases js) (auto simp add: schema_jobs_def)
    with d Some show ?thesis
      by (simp add: field_def jobs_of_def list_all_iff)
  qed
qed

lemma process_fio_results_jobs:
  "field kvs ''jobs'' (JList []) = JList jobs \<Longrightarrow>
   process_fio_results now test_name (JDict kvs) =
     and_then (process_jobs
                 [(''timestamp'', JStr now),
                  (''test_name'', test_name),
                  (''global_options'', field kvs ''global options'' (JDict []))] jobs)
       (\<lambda>results. Inr (JDict results))"
  by (simp add: process_fio_results_def field_def py_iter_def)

lemma schema_percentile_ns_of:
  "schema_percentile (JDict pt) \<Longrightarrow> \<exists>x. ns_of pt k = Some x"
proof -
  assume "schema_percentile (JDict pt)"
  then have a: "\<forall>kv\<in>set pt. is_number (snd kv)"
    by (simp add: schema_percentile_def list_all_iff)
  show ?thesis
  proof (cases "map_of pt k")
    case None
    then show ?thesis by (simp add: ns_of_def)
  next
    case (Some v)
    then have "(k, v) \<in> set pt" by (rule map_of_SomeD)
    with a have "is_number v" by auto
    with Some show ?thesis
      using is_number_num_val [of v] by (simp add: ns_of_def)
  qed
qed

lemma stats_record_ready:
  assumes "schema_stats (JDict st)" and "stats_record (JDict st) = Inr rd"
  shows "side_ready rd"
proof -
  from stats_record_schema [OF assms(1)] assms(2) obtain lat clat a b c where
    clat: "field st ''clat_ns'' (JDict []) = JDict clat" and
    rd: "rd = JDict
               [(''iops'', field st ''iops'' (JInt 0)),
                (''bw_bytes'', field st ''bw_bytes'' (JInt 0)),
                (''bw_kbps'', field st ''bw_kbps'' (JInt 0)),
                (''latency_ns'',
                   JDict [(''min'', field lat ''min'' (JInt 0)),
                          (''max'', field lat ''max'' (JInt 0)),
                          (''mean'', field lat ''mean'' (JInt 0))]),
                (''percentiles'', field clat ''percentile'' (JDict [])),
                (''latency_us'',
                   JDict [(''min'', JFloat (a / 1000)),
                          (''max'', JFloat (b / 1000)),
                          (''mean'', JFloat (c / 1000))])]"
    by auto
  from assms(1) have "opt_field st ''clat_ns'' schema_clat"
    by (simp add: schema_stats_def)
  with clat have "schema_clat (JDict clat)"
    by (auto simp add: opt_field_def field_def schema_clat_def split: option.splits)
  then have "schema_percentile (field clat ''percentile'' (JDict []))"
    by (auto simp add: schema_clat_def opt_field_def field_def schema_percentile_def split: option.splits)
  then obtain pt where pt: "field clat ''percentile'' (JDict []) = JDict pt" "schema_percentile (JDict pt)"
    by (cases "field clat ''percentile'' (JDict [])") (auto simp add: schema_percentile_def)
  from schema_percentile_ns_of [OF pt(2)] obtain x where "ns_of pt ''95.000000'' = Some x"
    by blast
  with pt(1) show ?thesis
    by (simp add: side_ready_def rd)
qed

lemma job_results_ready:
  assumes "schema_job job" and "job_results job = Inr (name, rec)"
  shows "metrics_ready rec"
proof -
  from job_results_schema [OF assms(1)] assms(2) obtain kvs rd wr cpu where
    job: "job = JDict kvs" and
    rd: "stats_record (field kvs ''read'' (JDict [])) = Inr rd" and
    wr: "stats_record (field kvs ''write'' (JDict [])) = Inr wr" and
    rec: "rec = JDict [(''read'', rd), (''write'', wr), (''cpu'', cpu)]"
    by auto
  from assms(1) job have f: "opt_field kvs ''read'' schema_stats" "opt_field kvs ''write'' schema_stats"
    by (simp_all add: schema_job_def)
  obtain rs where rs: "field kvs ''read'' (JDict []) = JDict rs" "schema_stats (JDict rs)"
    using schema_stats_field [OF f(1)] by blast
  obtain ws where ws: "field kvs ''write'' (JDict []) = JDict ws" "schema_stats (JDict ws)"
    using schema_stats_field [OF f(2)] by blast
  have "side_ready rd" "side_ready wr"
    using stats_record_ready [OF rs(2)] stats_record_ready [OF ws(2)] rd wr rs(1) ws(1)
    by simp_all
  then show ?thesis
    by (simp add: metrics_ready_def rec)
qed

lemma p95_us_ready:
  assumes "side_ready st"
  shows "\<exists>pt x iops bw. lookup_path st [''percentiles''] = Some (JDict pt) \<and>
           ns_of pt ''95.000000'' = Some x \<and>
           getitem st ''iops'' = Inr iops \<and> getitem st ''bw_kbps'' = Inr bw \<and>
           p95_us st = Inr (JFloat (x / 1000))"
proof -
  from assms obtain kvs where st: "st = JDict kvs"
    by (cases st) (auto simp add: side_ready_def)
  from assms st obtain pt x iops bw where
    f: "map_of kvs ''percentiles'' = Some (JDict pt)" "ns_of pt ''95.000000'' = Some x"
      "map_of kvs ''iops'' = Some iops" "map_of kvs ''bw_kbps'' = Some bw"
    by (auto simp add: side_ready_def split: option.splits json.splits)
  from f(2) have "py_truediv (field pt ''95.000000'' (JInt 0)) (JInt 1000) = Inr (JFloat (x / 1000))"
    by (auto simp add: ns_of_def field_def py_truediv_def split: option.splits)
  then have "p95_us st = Inr (JFloat (x / 1000))"
    using st f(1) by (simp add: p95_us_def field_def)
  with st f show ?thesis by simp
qed

lemma job_metrics_ready:
  assumes "metrics_ready job_data"
  shows "\<exists>read_table write_table x y ri wi rb wb.
           lookup_path job_data [''read'', ''percentiles''] = Some (JDict read_table) \<and>
           lookup_path job_data [''write'', ''percentiles''] = Some (JDict write_table) \<and>
           ns_of read_table ''95.000000'' = Some x \<and> ns_of write_table ''95.000000'' = Some y \<and>
           job_metrics job_data =
             Inr (JDict
               [(''read_iops'', ri),
                (''write_iops'', wi),
                (''read_latency_us_p95'', JFloat (x / 1000)),
                (''write_latency_us_p95'', JFloat (y / 1000)),
                (''read_bandwidth_kbps'', rb),
                (''write_bandwidth_kbps'', wb)])"
proof -
  from assms obtain kvs where jd: "job_data = JDict kvs"
    by (cases job_data) (auto simp add: metrics_ready_def)
  from assms jd obtain rd wr where
    s: "map_of kvs ''read'' = Some rd" "map_of kvs ''write'' = Some wr" "side_ready rd" "side_ready wr"
    by (auto simp add: metrics_ready_def split: option.splits)
  from p95_us_ready [OF s(3)] obtain rt x ri rb where
    r: "lookup_path rd [''percentiles''] = Some (JDict rt)" "ns_of rt ''95.000000'' = Some x"
      "getitem rd ''iops'' = Inr ri" "getitem rd ''bw_kbps'' = Inr rb"
      "p95_us rd = Inr (JFloat (x / 1000))"
    by blast
  from p95_us_ready [OF s(4)] obtain wt y wi wb where
    w: "lookup_path wr [''percentiles''] = Some (JDict wt)" "ns_of wt ''95.000000'' = Some y"
      "getitem wr ''iops'' = Inr wi" "getitem wr ''bw_kbps'' = Inr wb"
      "p95_us wr = Inr (JFloat (y / 1000))"
    by blast
  have "job_metrics job_data =
             Inr (JDict
               [(''read_iops'', ri),
                (''write_iops'', wi),
                (''read_latency_us_p95'', JFloat (x / 1000)),
                (''write_latency_us_p95'', JFloat (y / 1000)),
                (''read_bandwidth_kbps'', rb),
                (''write_bandwidth_kbps'', wb)])"
    using jd s(1,2) r(3-5) w(3-5) by (simp add: job_metrics_def)
  moreover have "lookup_path job_data [''read'', ''percentiles''] = Some (JDict rt)"
    "lookup_path job_data [''write'', ''percentiles''] = Some (JDict wt)"
    using jd s(1,2) r(1) w(1) by simp_all
  ultimately show ?thesis
    using r(2) w(2) by blast
qed

lemma metrics_loop_untouched:
  "metrics_loop acc items = Inr m \<Longrightarrow> k \<in> set metadata_keys \<or> k \<notin> fst ` set items \<Longrightarrow>
   map_of m k = map_of acc k"
proof (induction items arbitrary: acc)
  case Nil
  then show ?case by simp
next
  case (Cons item items)
  obtain job_name job_data where item: "item = (job_name, job_data)" by (cases item)
  show ?case
  proof (cases "job_name \<in> set metadata_keys")
    case True
    with Cons.prems item have "metrics_loop acc items = Inr m" by simp
    moreover from Cons.prems(2) have "k \<in> set metadata_keys \<or> k \<notin> fst ` set items" by auto
    ultimately show ?thesis by (rule Cons.IH)
  next
    case False
    with Cons.prems(1) item obtain jm where
      rest: "metrics_loop (dict_set acc job_name jm) items = Inr m"
      by (auto simp add: and_then_def split: sum.splits)
    from Cons.prems(2) item False have ne: "k \<noteq> job_name" by auto
    from Cons.prems(2) have "k \<in> set metadata_keys \<or> k \<notin> fst ` set items" by auto
    from Cons.IH [OF rest this] ne show ?thesis
      by (simp add: map_of_dict_set)
  qed
qed

lemma metrics_loop_ready:
  assumes "distinct (map fst items)"
    and "\<forall>item\<in>set items. fst item \<notin> set metadata_keys \<longrightarrow> metrics_ready (snd item)"
  shows "\<exists>m. metrics_loop acc items = Inr m \<and>
           (\<forall>k jd. map_of items k = Some jd \<and> k \<notin> set metadata_keys \<longrightarrow>
              (\<exists>jm. job_metrics jd = Inr jm \<and> map_of m k = Some jm))"
  using assms
proof (induction items arbitrary: acc)
  case Nil
  then show ?case by simp
next
  case (Cons item items)
  obtain job_name job_data where item: "item = (job_name, job_data)" by (cases item)
  from Cons.prems have d: "distinct (map fst items)" and nk: "job_name \<notin> fst ` set items"
    and r: "\<forall>item\<in>set items. fst item \<notin> set metadata_keys \<longrightarrow> metrics_ready (snd item)"
    using item by auto
  show ?case
  proof (cases "job_name \<in> set metadata_keys")
    case True
    from Cons.IH [OF d r, of acc] obtain m where
      m: "metrics_loop acc items = Inr m"
        "\<forall>k jd. map_of items k = Some jd \<and> k \<notin> set metadata_keys \<longrightarrow>
              (\<exists>jm. job_metrics jd = Inr jm \<and> map_of m k = Some jm)"
      by blast
    from m(1) True item have "metrics_loop acc (item # items) = Inr m" by simp
    moreover from m(2) True item
    have "\<forall>k jd. map_of (item # items) k = Some jd \<and> k \<notin> set metadata_keys \<longrightarrow>
              (\<exists>jm. job_metrics jd = Inr jm \<and> map_of m k = Some jm)"
      by auto
    ultimately show ?thesis by blast
  next
    case False
    with Cons.prems(2) item have "metrics_ready job_data" by simp
    from job_metrics_ready [OF this] obtain jm where jm: "job_metrics job_data = Inr jm"
      by blast
    from Cons.IH [OF d r, of "dict_set acc job_name jm"] obtain m where
      m: "metrics_loop (dict_set acc job_name jm) items = Inr m"
        "\<forall>k jd. map_of items k = Some jd \<and> k \<notin> set metadata_keys \<longrightarrow>
              (\<exists>jm. job_metrics jd = Inr jm \<and> map_of m k = Some jm)"
      by blast
    from m(1) False item jm have l: "metrics_loop acc (item # items) = Inr m" by simp
    from metrics_loop_untouched [OF m(1), of job_name] nk
    have "map_of m job_name = Some jm"
      by (simp add: map_of_dict_set)
    with m(2) item jm
    have "\<forall>k jd. map_of (item # items) k = Some jd \<and> k \<notin> set metadata_keys \<longrightarrow>
              (\<exists>jm. job_metrics jd = Inr jm \<and> map_of m k = Some jm)"
      by auto
    with l show ?thesis by blast
  qed
qed

lemma normalized_entries_ready:
  assumes "schema_doc fio_data"
    and "process_fio_results now test_name fio_data = Inr result"
  shows "\<exists>results. result = JDict results \<and> distinct (map fst results) \<and>
           (\<forall>item\<in>set results. fst item \<notin> set metadata_keys \<longrightarrow> metrics_ready (snd item))"
proof -
  from schema_doc_jobs [OF assms(1)] obtain kvs where
    d: "fio_data = JDict kvs" and
    j: "field kvs ''jobs'' (JList []) = JList (jobs_of fio_data)" and
    s: "\<forall>job\<in>set (jobs_of fio_data). schema_job job"
    by blast
  let ?meta = "[(''timestamp'', JStr now), (''test_name'', test_name),
                (''global_options'', field kvs ''global options'' (JDict []))]"
  from assms(2) d process_fio_results_jobs [OF j, of now test_name] obtain results where
    p: "process_jobs ?meta (jobs_of fio_data) = Inr results" and r: "result = JDict results"
    by (auto simp add: and_then_def split: sum.splits)
  have dm: "distinct (map fst ?meta)" by simp
  from process_jobs_distinct [OF p dm] have dr: "distinct (map fst results)" .
  have "metrics_ready (snd item)" if "item \<in> set results" "fst item \<notin> set metadata_keys" for item
  proof -
    obtain k v where kv: "item = (k, v)" by (cases item)
    with that(1) dr have m: "map_of results (fst item) = Some (snd item)"
      by simp
    from that(2) have "map_of ?meta (fst item) = None"
      by (simp add: metadata_keys_def)
    with process_jobs_origin [OF p m] obtain job where
      "job \<in> set (jobs_of fio_data)" "job_results job = Inr (JStr (fst item), snd item)"
      by auto
    with s job_results_ready show ?thesis by blast
  qed
  with r dr show ?thesis by blast
qed



lemma scenario_metrics:
  "extract_key_metrics scenario_result =
     Inr (JDict
       [(''j1'',
         JDict
          [(''read_iops'', JInt 100), (''write_iops'', JInt 50),
           (''read_latency_us_p95'', JFloat 4),
           (''write_latency_us_p95'', JFloat 5),
           (''read_bandwidth_kbps'', JInt 800),
           (''write_bandwidth_kbps'', JInt 400)])])"
  by (simp add: scenario_result_def extract_key_metrics_def metadata_keys_def job_metrics_def
      p95_us_def py_truediv_def)

lemma normalized_report_ready:
  assumes "schema_doc fio_data"
    and "process_fio_results now test_name fio_data = Inr result"
  shows "report_ready result"
proof -
  from normalized_entries_ready [OF assms] obtain results where
    r: "result = JDict results" and d: "distinct (map fst results)" and
    rd: "\<forall>item\<in>set results. fst item \<notin> set metadata_keys \<longrightarrow> metrics_ready (snd item)"
    by blast
  from metrics_loop_ready [OF d rd, of "[]"] obtain metrics where
    "metrics_loop [] results = Inr metrics"
    by blast
  with r have x: "is_ok (extract_key_metrics result)"
    by (simp add: extract_key_metrics_def is_ok_def)
  from schema_doc_jobs [OF assms(1)] obtain kvs where
    k: "fio_data = JDict kvs" "field kvs ''jobs'' (JList []) = JList (jobs_of fio_data)"
    by blast
  from assms(2) r k process_fio_results_jobs [OF k(2), of now test_name]
  have "process_jobs
          [(''timestamp'', JStr now), (''test_name'', test_name),
           (''global_options'', field kvs ''global options'' (JDict []))]
          (jobs_of fio_data) = Inr results"
    by (auto simp add: and_then_def split: sum.splits)
  from process_jobs_keys_mono [OF this] have "''timestamp'' \<in> fst ` set results"
    by auto
  then obtain v where "map_of results ''timestamp'' = Some v"
    by (metis domD dom_map_of_conv_image_fst)
  with r have "is_ok (getitem result ''timestamp'')"
    by (simp add: is_ok_def)
  with r x show ?thesis
    by (simp add: report_ready_def)
qed

lemma rows_loop_skips:
  "rows_loop timestamp test_name data items = Inr rows \<Longrightarrow>
   \<forall>row\<in>set data. \<exists>k. getitem row ''job_name'' = Inr (JStr k) \<and> k \<notin> set metadata_keys \<Longrightarrow>
   \<forall>row\<in>set rows. \<exists>k. getitem row ''job_name'' = Inr (JStr k) \<and> k \<notin> set metadata_keys"
proof (induction items arbitrary: data)
  case Nil
  then show ?case by simp
next
  case (Cons item items)
  obtain job_name job_data where item: "item = (job_name, job_data)" by (cases item)
  show ?case
  proof (cases "job_name \<in> set metadata_keys")
    case True
    with Cons.prems(1) item have "rows_loop timestamp test_name data items = Inr rows" by simp
    from Cons.IH [OF this Cons.prems(2)] show ?thesis .
  next
    case False
    with Cons.prems(1) item obtain row where
      row: "timeseries_row timestamp test_name job_name job_data = Inr row" and
      rest: "rows_loop timestamp test_name (data @ [row]) items = Inr rows"
      by (auto simp add: and_then_def split: sum.splits)
    from row have "getitem row ''job_name'' = Inr (JStr job_name)"
      by (auto simp add: timeseries_row_def and_then_def split: sum.splits)
    with False Cons.prems(2)
    have "\<forall>row\<in>set (data @ [row]). \<exists>k. getitem row ''job_name'' = Inr (JStr k) \<and> k \<notin> set metadata_keys"
      by auto
    from Cons.IH [OF rest this] show ?thesis .
  qed
qed

lemma py_eq_JStr: "py_eq v (JStr n) = (v = JStr n)"
  by (cases v) simp_all

lemma results_of_test_filter:
  "\<forall>r\<in>set hist. is_dict r \<Longrightarrow>
   results_of_test (JStr n) hist =
     Inr (filter (\<lambda>r. getitem r ''test_name'' = Inr (JStr n)) hist)"
proof (induction hist)
  case Nil
  then show ?case by simp
next
  case (Cons r hist)
  then obtain kvs where "r = JDict kvs" by (cases r) auto
  with Cons show ?case
    by (auto simp add: py_eq_JStr split: option.splits)
qed

lemma aggregate_ready:
  assumes "test_results \<noteq> []" and "report_ready (last test_results)"
  shows "\<exists>last_run latest_metrics.
           aggregate_test_results test_results =
             Inr (JDict
               [(''last_run'', last_run),
                (''runs_count'', JInt (int (length test_results))),
                (''latest_metrics'', latest_metrics)])"
proof -
  from assms(2) obtain last_run latest_metrics where
    "getitem (last test_results) ''timestamp'' = Inr last_run"
    "extract_key_metrics (last test_results) = Inr latest_metrics"
    by (auto simp add: report_ready_def is_ok_def split: sum.splits)
  with assms(1) show ?thesis
    by (simp add: aggregate_test_results_def Let_def)
qed

lemma summary_loop_ready:
  assumes "\<forall>r\<in>set hist. report_ready r"
    and "\<forall>c\<in>set cfgs. \<exists>n. getitem c ''name'' = Inr (JStr n)"
  shows "\<exists>summary'. summary_loop hist summary cfgs = Inr summary' \<and>
           (\<forall>n. ((\<exists>c\<in>set cfgs. getitem c ''name'' = Inr (JStr n)) \<and> runs_of n hist \<noteq> [] \<longrightarrow>
                   (\<exists>last_run latest_metrics.
                      map_of summary' n =
                        Some (JDict
                          [(''last_run'', last_run),
                           (''runs_count'', JInt (int (length (runs_of n hist)))),
                           (''latest_metrics'', latest_metrics)]))) \<and>
                (\<not> ((\<exists>c\<in>set cfgs. getitem c ''name'' = Inr (JStr n)) \<and> runs_of n hist \<noteq> []) \<longrightarrow>
                   map_of summary' n = map_of summary n))"
  using assms(2)
proof (induction cfgs arbitrary: summary)
  case Nil
  then show ?case by simp
next
  case (Cons c cfgs)
  from Cons.prems obtain n0 where n0: "getitem c ''name'' = Inr (JStr n0)" by auto
  from Cons.prems have rest: "\<forall>c\<in>set cfgs. \<exists>n. getitem c ''name'' = Inr (JStr n)" by simp
  from assms(1) have dicts: "\<forall>r\<in>set hist. is_dict r"
    by (simp add: report_ready_def)
  have f: "results_of_test (JStr n0) hist = Inr (runs_of n0 hist)"
    using results_of_test_filter [OF dicts] by (simp add: runs_of_def)
  show ?case
  proof (cases "runs_of n0 hist = []")
    case True
    then have step: "summary_loop hist summary (c # cfgs) = summary_loop hist summary cfgs"
      using n0 f by simp
    from Cons.IH [OF rest, of summary] obtain summary' where
      s: "summary_loop hist summary cfgs = Inr summary'" and
      p: "\<forall>n. ((\<exists>c\<in>set cfgs. getitem c ''name'' = Inr (JStr n)) \<and> runs_of n hist \<noteq> [] \<longrightarrow>
                   (\<exists>last_run latest_metrics.
                      map_of summary' n =
                        Some (JDict
                          [(''last_run'', last_run),
                           (''runs_count'', JInt (int (length (runs_of n hist)))),
                           (''latest_metrics'', latest_metrics)]))) \<and>
                (\<not> ((\<exists>c\<in>set cfgs. getitem c ''name'' = Inr (JStr n)) \<and> runs_of n hist \<noteq> []) \<longrightarrow>
                   map_of summary' n = map_of summary n)"
      by blast
    have e: "((\<exists>c'\<in>set (c # cfgs). getitem c' ''name'' = Inr (JStr n)) \<and> runs_of n hist \<noteq> []) =
             ((\<exists>c'\<in>set cfgs. getitem c' ''name'' = Inr (JStr n)) \<and> runs_of n hist \<noteq> [])" for n
      using n0 True by auto
    show ?thesis
      unfolding step e using s p by blast
  next
    case False
    have "last (runs_of n0 hist) \<in> set (runs_of n0 hist)"
      using False by simp
    then have "last (runs_of n0 hist) \<in> set hist"
      by (simp add: runs_of_def)
    with assms(1) have "report_ready (last (runs_of n0 hist))" by blast
    from aggregate_ready [OF False this] obtain last_run latest_metrics where
      agg: "aggregate_test_results (runs_of n0 hist) =
             Inr (JDict
               [(''last_run'', last_run),
                (''runs_count'', JInt (int (length (runs_of n0 hist)))),
                (''latest_metrics'', latest_metrics)])"
      by blast
    let ?entry = "JDict
               [(''last_run'', last_run),
                (''runs_count'', JInt (int (length (runs_of n0 hist)))),
                (''latest_metrics'', latest_metrics)]"
    have step: "summary_loop hist summary (c # cfgs) =
                summary_loop hist (dict_set summary n0 ?entry) cfgs"
      using n0 f False agg by (simp add: setitem_def)
    from Cons.IH [OF rest, of "dict_set summary n0 ?entry"] obtain summary' where
      s: "summary_loop hist (dict_set summary n0 ?entry) cfgs = Inr summary'" and
      p: "\<forall>n. ((\<exists>c\<in>set cfgs. getitem c ''name'' = Inr (JStr n)) \<and> runs_of n hist \<noteq> [] \<longrightarrow>
                   (\<exists>last_run latest_metrics.
                      map_of summary' n =
                        Some (JDict
                          [(''last_run'', last_run),
                           (''runs_count'', JInt (int (length (runs_of n hist)))),
                           (''latest_metrics'', latest_metrics)]))) \<and>
                (\<not> ((\<exists>c\<in>set cfgs. getitem c ''name'' = Inr (JStr n)) \<and> runs_of n hist \<noteq> []) \<longrightarrow>
                   map_of summary' n = map_of (dict_set summary n0 ?entry) n)"
      by blast
    have "((\<exists>c'\<in>set (c # cfgs). getitem c' ''name'' = Inr (JStr n)) \<and> runs_of n hist \<noteq> [] \<longrightarrow>
                   (\<exists>last_run latest_metrics.
                      map_of summary' n =
                        Some (JDict
                          [(''last_run'', last_run),
                           (''runs_count'', JInt (int (length (runs_of n hist)))),
                           (''latest_metrics'', latest_metrics)]))) \<and>
                (\<not> ((\<exists>c'\<in>set (c # cfgs). getitem c' ''name'' = Inr (JStr n)) \<and> runs_of n hist \<noteq> []) \<longrightarrow>
                   map_of summary' n = map_of summary n)" for n
    proof (cases "n = n0")
      case True
      show ?thesis
      proof (cases "\<exists>c\<in>set cfgs. getitem c ''name'' = Inr (JStr n)")
        case yes: True
        with p False True n0 show ?thesis by auto
      next
        case no: False
        with p have "map_of summary' n = map_of (dict_set summary n0 ?entry) n" by blast
        with True have "map_of summary' n = Some ?entry" by (simp add: map_of_dict_set)
        with True False n0 show ?thesis by auto
      qed
    next
      case ne: False
      then have "(\<exists>c'\<in>set (c # cfgs). getitem c' ''name'' = Inr (JStr n)) =
                 (\<exists>c'\<in>set cfgs. getitem c' ''name'' = Inr (JStr n))"
        using n0 by auto
      moreover have "map_of (dict_set summary n0 ?entry) n = map_of summary n"
        using ne by (simp add: map_of_dict_set)
      ultimately show ?thesis using p by simp
    qed
    then show ?thesis
      unfolding step using s by blast
  qed
qed

lemma run_record_ready: "report_ready (run_record now n)"
  by (simp add: run_record_def report_ready_def is_ok_def extract_key_metrics_def metadata_keys_def)

lemma zero_record_results: "job_results (JDict kvs) = Inr (JStr name, zero_record)"
  if "kvs = [] \<and> name = ''unknown'' \<or> kvs = [(''jobname'', JStr name)]"
  using that
  by (auto simp add: zero_record_def job_results_def stats_record_def convert_latency_to_us_def
      py_truediv_def py_add_def)

text \<open>
  With a job named \<^verbatim>\<open>timestamp\<close> the analyzer finds a sub-record where it expects the
  ISO string and raises.
\<close>

lemma shadowed_timestamp_rows: "result_rows env [] (JDict shadow_results) = Inl TypeError"
  by (simp add: result_rows_def shadow_results_def zero_record_def)

section \<open>Verified properties\<close>

text \<open>
  Claim C1. Starting from any monitor, saving a sequence of non-empty results one
  after the other appends them to the history in that order, and after each of the saves
  the history file holds the whole in-memory history, which is what reloading it returns.
  A fresh monitor has an empty history, so after \<open>N\<close> saves the persisted array is the
  \<open>N\<close> results in append order.
\<close>

theorem history_persisted_in_append_order:
  assumes "\<forall>r\<in>set rs. truthy r"
  shows "\<forall>k. 0 < k \<and> k \<le> length rs \<longrightarrow>
           (let s = foldl (\<lambda>s r. save_results env r s) s0 (take k rs)
            in history s = history s0 @ take k rs \<and>
               files s history_file = Some (JList (history s)) \<and>
               load_history (files s) = JList (history s0 @ take k rs))"
proof (intro allI impI)
  fix k
  assume k: "0 < k \<and> k \<le> length rs"
  have t: "\<forall>r\<in>set (take k rs). truthy r"
    using assms by (meson in_set_takeD)
  have ne: "take k rs \<noteq> []"
    using k by auto
  show "let s = foldl (\<lambda>s r. save_results env r s) s0 (take k rs)
        in history s = history s0 @ take k rs \<and>
           files s history_file = Some (JList (history s)) \<and>
           load_history (files s) = JList (history s0 @ take k rs)"
    using save_all_history [OF t, of env s0] save_all_file [OF t ne, of env s0]
    by (simp add: Let_def load_history_def)
qed

theorem history_persisted_in_append_order_witness:
  "truthy (JDict [(''test_name'', JStr ''a'')]) \<and>
   truthy (JDict [(''test_name'', JStr ''b'')]) \<and>
   (let s = foldl (\<lambda>s r. save_results example_env r s) (init_monitor [] Map.empty)
              [JDict [(''test_name'', JStr ''a'')], JDict [(''test_name'', JStr ''b'')]]
    in history s = [JDict [(''test_name'', JStr ''a'')], JDict [(''test_name'', JStr ''b'')]] \<and>
       files s history_file = Some (JList (history s)) \<and>
       load_history (files s) =
         JList [JDict [(''test_name'', JStr ''a'')], JDict [(''test_name'', JStr ''b'')]])"
  using history_persisted_in_append_order
    [of "[JDict [(''test_name'', JStr ''a'')], JDict [(''test_name'', JStr ''b'')]]"
        example_env "init_monitor [] Map.empty", THEN spec, of 2]
  by (simp add: init_monitor_def)





text \<open>
  Claim C4. For a configuration with a name and a parameter dictionary, the command
  is the tool name, \<^verbatim>\<open>--name\<close> and the test name, followed by the pair
  \<^verbatim>\<open>--<key>\<close>, \<^verbatim>\<open>str(value)\<close> of every parameter whose key is not \<^verbatim>\<open>name\<close>, one pair
  each, in the order of the dictionary; this is the command the invocation runs.
\<close>

theorem command_line_of_config:
  assumes "getitem config ''name'' = Inr test_name"
    and "getitem config ''parameters'' = Inr (JDict items)"
  shows "build_cmd (py_str env) test_name items =
           [JStr ''fio'', JStr ''--name'', test_name] @
           concat (map (\<lambda>(k, v). [JStr (''--'' @ k), JStr (py_str env v)])
                       (filter (\<lambda>(k, v). k \<noteq> ''name'') items)) \<and>
         run_fio_test env t config =
           handlers (try_body env t test_name (JDict items)
                   ([JStr ''fio'', JStr ''--name'', test_name] @
                    concat (map (\<lambda>(k, v). [JStr (''--'' @ k), JStr (py_str env v)])
                                (filter (\<lambda>(k, v). k \<noteq> ''name'') items))))"
  using assms by (simp add: run_fio_test_def build_cmd_def extend_flags_append)

theorem command_line_of_config_witness:
  "getitem example_config ''name'' = Inr (JStr ''t1'') \<and>
   getitem example_config ''parameters'' =
     Inr (JDict [(''rw'', JStr ''randrw''), (''name'', JStr ''other''),
                 (''bs'', JStr ''8k''), (''runtime'', JInt 10)]) \<and>
   build_cmd (py_str example_env) (JStr ''t1'')
     [(''rw'', JStr ''randrw''), (''name'', JStr ''other''),
      (''bs'', JStr ''8k''), (''runtime'', JInt 10)] =
     [JStr ''fio'', JStr ''--name'', JStr ''t1'',
      JStr ''--rw'', JStr ''randrw'', JStr ''--bs'', JStr ''8k'',
      JStr ''--runtime'', JStr ''10'']"
proof -
  have cfg: "getitem example_config ''name'' = Inr (JStr ''t1'') \<and>
     getitem example_config ''parameters'' =
       Inr (JDict [(''rw'', JStr ''randrw''), (''name'', JStr ''other''),
                   (''bs'', JStr ''8k''), (''runtime'', JInt 10)])"
    by (simp add: example_config_def)
  have str: "py_str example_env (JStr ''randrw'') = ''randrw'' \<and>
     py_str example_env (JStr ''8k'') = ''8k'' \<and>
     py_str example_env (JInt 10) = ''10''"
    by (simp add: example_env_def)
  from cfg show ?thesis
    using command_line_of_config
      [of example_config "JStr ''t1''"
          "[(''rw'', JStr ''randrw''), (''name'', JStr ''other''),
            (''bs'', JStr ''8k''), (''runtime'', JInt 10)]" example_env 0]
    by (simp add: str)
qed



text \<open>
  Claim C6. When the history holds exactly three records of a configured test \<open>a\<close>
  and none of a test \<open>b\<close>, the report is generated and written, its summary has an
  entry for \<open>a\<close> with \<^verbatim>\<open>runs_count\<close> 3 and no entry for \<open>b\<close>.
\<close>

theorem report_counts_runs_per_configured_test:
  assumes "\<forall>r\<in>set (history s). report_ready r"
    and "\<forall>c\<in>set (configs s). \<exists>n. getitem c ''name'' = Inr (JStr n)"
    and "\<exists>c\<in>set (configs s). getitem c ''name'' = Inr (JStr a)"
    and "length (runs_of a (history s)) = 3"
    and "runs_of b (history s) = []"
  shows "\<exists>report s' summary last_run latest_metrics.
           generate_report env s = Inr (report, s') \<and>
           files s' report_file = Some report \<and>
           getitem report ''summary'' = Inr (JDict summary) \<and>
           map_of summary a =
             Some (JDict
               [(''last_run'', last_run),
                (''runs_count'', JInt 3),
                (''latest_metrics'', latest_metrics)]) \<and>
           map_of summary b = None"
proof -
  from assms(4) have ne: "runs_of a (history s) \<noteq> []" by auto
  then have h: "history s \<noteq> []" by (auto simp add: runs_of_def)
  from summary_loop_ready [OF assms(1,2), of "[]"] obtain summary where
    l: "summary_loop (history s) [] (configs s) = Inr summary" and
    p: "\<forall>n. ((\<exists>c\<in>set (configs s). getitem c ''name'' = Inr (JStr n)) \<and> runs_of n (history s) \<noteq> [] \<longrightarrow>
                   (\<exists>last_run latest_metrics.
                      map_of summary n =
                        Some (JDict
                          [(''last_run'', last_run),
                           (''runs_count'', JInt (int (length (runs_of n (history s))))),
                           (''latest_metrics'', latest_metrics)]))) \<and>
                (\<not> ((\<exists>c\<in>set (configs s). getitem c ''name'' = Inr (JStr n)) \<and> runs_of n (history s) \<noteq> []) \<longrightarrow>
                   map_of summary n = map_of [] n)"
    by blast
  from p assms(3) ne obtain last_run latest_metrics where
    "map_of summary a =
       Some (JDict
         [(''last_run'', last_run),
          (''runs_count'', JInt (int (length (runs_of a (history s))))),
          (''latest_metrics'', latest_metrics)])"
    by blast
  with assms(4) have ea: "map_of summary a =
       Some (JDict
         [(''last_run'', last_run),
          (''runs_count'', JInt 3),
          (''latest_metrics'', latest_metrics)])"
    by simp
  from p assms(5) have eb: "map_of summary b = None"
    by simp
  let ?report = "JDict
              [(''generated_at'', JStr (now_iso env (clock s))),
               (''total_tests'', JInt (int (length (history s)))),
               (''summary'', JDict summary)]"
  let ?s' = "s\<lparr>files := (files s)(report_file \<mapsto> ?report), clock := clock s + 1\<rparr>"
  have g: "generate_report env s = Inr (?report, ?s')"
    using h l by (simp add: generate_report_def Let_def)
  have "files ?s' report_file = Some ?report" by simp
  moreover have "getitem ?report ''summary'' = Inr (JDict summary)" by simp
  ultimately show ?thesis
    using g ea eb by blast
qed

theorem report_counts_runs_per_configured_test_witness:
  "length (runs_of ''A'' (history three_runs_monitor)) = 3 \<and>
   runs_of ''B'' (history three_runs_monitor) = [] \<and>
   (\<exists>report s' summary.
      generate_report example_env three_runs_monitor = Inr (report, s') \<and>
      getitem report ''summary'' = Inr (JDict summary) \<and>
      map_of summary ''A'' =
        Some (JDict
          [(''last_run'', JStr ''2026-01-01T00:00:03''),
           (''runs_count'', JInt 3),
           (''latest_metrics'', JDict [])]) \<and>
      map_of summary ''B'' = None)"
proof -
  have r: "\<forall>r\<in>set (history three_runs_monitor). report_ready r"
    by (simp add: three_runs_monitor_def run_record_ready)
  have c: "\<forall>c\<in>set (configs three_runs_monitor). \<exists>n. getitem c ''name'' = Inr (JStr n)"
    by (simp add: three_runs_monitor_def)
  have a: "\<exists>c\<in>set (configs three_runs_monitor). getitem c ''name'' = Inr (JStr ''A'')"
    by (simp add: three_runs_monitor_def)
  have n: "length (runs_of ''A'' (history three_runs_monitor)) = 3"
    by (simp add: three_runs_monitor_def runs_of_def run_record_def)
  have b: "runs_of ''B'' (history three_runs_monitor) = []"
    by (simp add: three_runs_monitor_def runs_of_def run_record_def)
  from report_counts_runs_per_configured_test [OF r c a n b, of example_env]
  obtain report s' summary last_run latest_metrics where
    g: "generate_report example_env three_runs_monitor = Inr (report, s')"
      "getitem report ''summary'' = Inr (JDict summary)"
      "map_of summary ''A'' =
             Some (JDict
               [(''last_run'', last_run),
                (''runs_count'', JInt 3),
                (''latest_metrics'', latest_metrics)])"
      "map_of summary ''B'' = None"
    by blast
  have e: "generate_report example_env three_runs_monitor =
      Inr (JDict
            [(''generated_at'', JStr (now_iso example_env 7)),
             (''total_tests'', JInt 3),
             (''summary'', JDict [(''A'', JDict
                [(''last_run'', JStr ''2026-01-01T00:00:03''),
                 (''runs_count'', JInt 3),
                 (''latest_metrics'', JDict [])])])],
           three_runs_monitor
             \<lparr>files := (files three_runs_monitor)(report_file \<mapsto> JDict
            [(''generated_at'', JStr (now_iso example_env 7)),
             (''total_tests'', JInt 3),
             (''summary'', JDict [(''A'', JDict
                [(''last_run'', JStr ''2026-01-01T00:00:03''),
                 (''runs_count'', JInt 3),
                 (''latest_metrics'', JDict [])])])]),
               clock := clock three_runs_monitor + 1\<rparr>)"
    by (simp add: generate_report_def three_runs_monitor_def run_record_def Let_def
        aggregate_test_results_def extract_key_metrics_def metadata_keys_def setitem_def)
  from g e have "summary = [(''A'', JDict
                [(''last_run'', JStr ''2026-01-01T00:00:03''),
                 (''runs_count'', JInt 3),
                 (''latest_metrics'', JDict [])])]"
    by auto
  with g n b show ?thesis
    by auto
qed



text \<open>
  Claim C8. A document whose \<^verbatim>\<open>jobs\<close> list is empty is normalized to the three
  metadata fields and nothing else.
\<close>

theorem jobless_document_metadata_only:
  "map_of doc ''jobs'' = Some (JList []) \<Longrightarrow>
   process_fio_results now test_name (JDict doc) =
     Inr (JDict
       [(''timestamp'', JStr now),
        (''test_name'', test_name),
        (''global_options'', (case map_of doc ''global options'' of None \<Rightarrow> JDict [] | Some g \<Rightarrow> g))])"
  by (simp add: process_fio_results_def py_iter_def)

theorem jobless_document_metadata_only_witness:
  "map_of [(''jobs'', JList [])] ''jobs'' = Some (JList []) \<and>
   process_fio_results ''2026-01-01T00:00:00'' (JStr ''t1'') (JDict [(''jobs'', JList [])]) =
     Inr (JDict
       [(''timestamp'', JStr ''2026-01-01T00:00:00''),
        (''test_name'', JStr ''t1''),
        (''global_options'', JDict [])])"
  using jobless_document_metadata_only [of "[(''jobs'', JList [])]" "''2026-01-01T00:00:00''" "JStr ''t1''"]
  by simp

text \<open>
  Claim C9, as stated: the timeout is the configuration's runtime parameter plus 30
  seconds, for every configuration. It fails for a configuration without a runtime
  parameter, where the timeout is 150, and for one whose runtime is a string, where
  adding the margin raises inside the \<^verbatim>\<open>try\<close> and nothing is invoked.
\<close>

theorem timeout_counterexample:
  "map_of [(''bs'', JStr ''8k'')] ''runtime'' = None \<and>
   subprocess_timeout (JDict [(''bs'', JStr ''8k'')]) = Inr (JInt 150) \<and>
   subprocess_timeout (JDict [(''runtime'', JStr ''60'')]) = Inl TypeError"
  by (simp add: subprocess_timeout_def py_add_def)

text \<open>
  Claim C9, amended: the timeout is the runtime parameter plus 30 when that parameter
  is a number, and 120 plus 30 when the configuration has no runtime parameter.
\<close>

theorem timeout_is_runtime_plus_grace:
  "(map_of parameters ''runtime'' = Some (JInt n) \<longrightarrow>
      subprocess_timeout (JDict parameters) = Inr (JInt (n + 30))) \<and>
   (map_of parameters ''runtime'' = Some (JFloat r) \<longrightarrow>
      subprocess_timeout (JDict parameters) = Inr (JFloat (r + 30))) \<and>
   (map_of parameters ''runtime'' = None \<longrightarrow>
      subprocess_timeout (JDict parameters) = Inr (JInt (120 + 30)))"
  by (simp add: subprocess_timeout_def py_add_def)

theorem timeout_is_runtime_plus_grace_witness:
  "map_of [(''bs'', JStr ''8k''), (''runtime'', JInt 10)] ''runtime'' = Some (JInt 10) \<and>
   subprocess_timeout (JDict [(''bs'', JStr ''8k''), (''runtime'', JInt 10)]) = Inr (JInt 40) \<and>
   map_of [(''runtime'', JFloat (5 / 2))] ''runtime'' = Some (JFloat (5 / 2)) \<and>
   subprocess_timeout (JDict [(''runtime'', JFloat (5 / 2))]) = Inr (JFloat (65 / 2)) \<and>
   map_of [(''bs'', JStr ''8k'')] ''runtime'' = None \<and>
   subprocess_timeout (JDict [(''bs'', JStr ''8k'')]) = Inr (JInt 150)"
  using timeout_is_runtime_plus_grace [of "[(''bs'', JStr ''8k''), (''runtime'', JInt 10)]" 10 0]
    timeout_is_runtime_plus_grace [of "[(''runtime'', JFloat (5 / 2))]" 0 "5 / 2"]
    timeout_is_runtime_plus_grace [of "[(''bs'', JStr ''8k'')]" 0 0]
  by simp

text \<open>
  Claim C10. Every job's sub-record is stored under the top-level key given by its
  \<^verbatim>\<open>jobname\<close>, \<^verbatim>\<open>unknown\<close> when it has none; the last job of a name determines the
  value of that key, also when the name is one of the three metadata keys, whose metadata
  value survives only when no job bears the name; metric extraction for the report and
  the rows of the analyzer leave out the three metadata keys.
\<close>

theorem jobname_shares_namespace_with_metadata:
  assumes "process_fio_results now test_name (JDict doc) = Inr (JDict results)"
    and "map_of doc ''jobs'' = Some (JList jobs)"
  shows "(\<forall>job\<in>set jobs. \<exists>name rec.
            dict_get job ''jobname'' (JStr ''unknown'') = Inr (JStr name) \<and>
            job_results job = Inr (JStr name, rec) \<and> name \<in> fst ` set results) \<and>
         (\<forall>before job after name rec.
            jobs = before @ job # after \<and> job_results job = Inr (JStr name, rec) \<and>
            (\<forall>j\<in>set after. dict_get j ''jobname'' (JStr ''unknown'') \<noteq> Inr (JStr name)) \<longrightarrow>
            map_of results name = Some rec) \<and>
         ((\<forall>j\<in>set jobs. dict_get j ''jobname'' (JStr ''unknown'') \<noteq> Inr (JStr ''timestamp'')) \<longrightarrow>
            map_of results ''timestamp'' = Some (JStr now)) \<and>
         ((\<forall>j\<in>set jobs. dict_get j ''jobname'' (JStr ''unknown'') \<noteq> Inr (JStr ''test_name'')) \<longrightarrow>
            map_of results ''test_name'' = Some test_name) \<and>
         ((\<forall>j\<in>set jobs. dict_get j ''jobname'' (JStr ''unknown'') \<noteq> Inr (JStr ''global_options'')) \<longrightarrow>
            map_of results ''global_options'' = Some (field doc ''global options'' (JDict []))) \<and>
         (\<forall>metrics. extract_key_metrics (JDict results) = Inr (JDict metrics) \<longrightarrow>
            (\<forall>k\<in>set metadata_keys. map_of metrics k = None)) \<and>
         (\<forall>rows. result_rows env [] (JDict results) = Inr rows \<longrightarrow>
            (\<forall>row\<in>set rows. \<exists>k. getitem row ''job_name'' = Inr (JStr k) \<and> k \<notin> set metadata_keys))"
proof -
  let ?meta = "[(''timestamp'', JStr now), (''test_name'', test_name),
                (''global_options'', field doc ''global options'' (JDict []))]"
  from assms(2) have j: "field doc ''jobs'' (JList []) = JList jobs"
    by (simp add: field_def)
  from assms(1) process_fio_results_jobs [OF j, of now test_name]
  have p: "process_jobs ?meta jobs = Inr results"
    by (auto simp add: and_then_def split: sum.splits)
  have 1: "\<forall>job\<in>set jobs. \<exists>name rec.
            dict_get job ''jobname'' (JStr ''unknown'') = Inr (JStr name) \<and>
            job_results job = Inr (JStr name, rec) \<and> name \<in> fst ` set results"
  proof
    fix job
    assume "job \<in> set jobs"
    from process_jobs_keys [OF p this] obtain name rec where
      n: "job_results job = Inr (JStr name, rec)" "name \<in> fst ` set results"
      by blast
    from job_results_name [OF n(1)] n
    show "\<exists>name rec.
            dict_get job ''jobname'' (JStr ''unknown'') = Inr (JStr name) \<and>
            job_results job = Inr (JStr name, rec) \<and> name \<in> fst ` set results"
      by blast
  qed
  have 2: "\<forall>before job after name rec.
            jobs = before @ job # after \<and> job_results job = Inr (JStr name, rec) \<and>
            (\<forall>j\<in>set after. dict_get j ''jobname'' (JStr ''unknown'') \<noteq> Inr (JStr name)) \<longrightarrow>
            map_of results name = Some rec"
  proof (intro allI impI)
    fix before job after name rec
    assume a: "jobs = before @ job # after \<and> job_results job = Inr (JStr name, rec) \<and>
            (\<forall>j\<in>set after. dict_get j ''jobname'' (JStr ''unknown'') \<noteq> Inr (JStr name))"
    with p have "process_jobs ?meta (before @ job # after) = Inr results" by simp
    from process_jobs_last [OF this] a show "map_of results name = Some rec" by blast
  qed
  have 3: "(\<forall>j\<in>set jobs. dict_get j ''jobname'' (JStr ''unknown'') \<noteq> Inr (JStr ''timestamp'')) \<longrightarrow>
            map_of results ''timestamp'' = Some (JStr now)"
    using process_jobs_untouched [OF p, of "''timestamp''"] by simp
  have 4: "(\<forall>j\<in>set jobs. dict_get j ''jobname'' (JStr ''unknown'') \<noteq> Inr (JStr ''test_name'')) \<longrightarrow>
            map_of results ''test_name'' = Some test_name"
    using process_jobs_untouched [OF p, of "''test_name''"] by simp
  have g: "(\<forall>j\<in>set jobs. dict_get j ''jobname'' (JStr ''unknown'') \<noteq> Inr (JStr ''global_options'')) \<longrightarrow>
            map_of results ''global_options'' = Some (field doc ''global options'' (JDict []))"
    using process_jobs_untouched [OF p, of "''global_options''"] by simp
  have 5: "\<forall>metrics. extract_key_metrics (JDict results) = Inr (JDict metrics) \<longrightarrow>
            (\<forall>k\<in>set metadata_keys. map_of metrics k = None)"
  proof (intro allI impI ballI)
    fix metrics k
    assume "extract_key_metrics (JDict results) = Inr (JDict metrics)" and k: "k \<in> set metadata_keys"
    then have "metrics_loop [] results = Inr metrics"
      by (auto simp add: extract_key_metrics_def and_then_def split: sum.splits)
    from metrics_loop_untouched [OF this, of k] k show "map_of metrics k = None"
      by simp
  qed
  have 6: "\<forall>rows. result_rows env [] (JDict results) = Inr rows \<longrightarrow>
            (\<forall>row\<in>set rows. \<exists>k. getitem row ''job_name'' = Inr (JStr k) \<and> k \<notin> set metadata_keys)"
  proof (intro allI impI)
    fix rows
    assume "result_rows env [] (JDict results) = Inr rows"
    then obtain ts tn where "rows_loop ts tn [] results = Inr rows"
      by (auto simp add: result_rows_def and_then_def split: sum.splits option.splits json.splits)
    from rows_loop_skips [OF this]
    show "\<forall>row\<in>set rows. \<exists>k. getitem row ''job_name'' = Inr (JStr k) \<and> k \<notin> set metadata_keys"
      by simp
  qed
  show ?thesis
    by (intro conjI) (fact 1 2 3 4 g 5 6)+
qed

theorem jobname_shares_namespace_with_metadata_witness:
  "process_fio_results ''2026-01-01T00:00:00'' (JStr ''t1'') (JDict [(''jobs'', JList shadow_jobs)]) =
     Inr (JDict shadow_results) \<and>
   map_of shadow_results ''timestamp'' = Some zero_record \<and>
   map_of shadow_results ''unknown'' = Some zero_record \<and>
   extract_key_metrics (JDict shadow_results) =
     Inr (JDict
       [(''unknown'',
         JDict
           [(''read_iops'', JInt 0), (''write_iops'', JInt 0),
            (''read_latency_us_p95'', JFloat 0), (''write_latency_us_p95'', JFloat 0),
            (''read_bandwidth_kbps'', JInt 0), (''write_bandwidth_kbps'', JInt 0)])]) \<and>
   result_rows example_env [] partial_result =
     Inr [JDict
       [(''timestamp'', JStr ''2026-01-01T00:00:00''),
        (''test_name'', JStr ''t1''),
        (''job_name'', JStr ''j1''),
        (''read_iops'', JInt 100), (''write_iops'', JInt 0),
        (''read_latency_p95_us'', JFloat 0), (''write_latency_p95_us'', JFloat 0),
        (''read_bw_kbps'', JInt 0), (''write_bw_kbps'', JInt 0)]]"
proof -
  have a: "result_rows example_env [] partial_result =
     Inr [JDict
       [(''timestamp'', JStr ''2026-01-01T00:00:00''),
        (''test_name'', JStr ''t1''),
        (''job_name'', JStr ''j1''),
        (''read_iops'', JInt 100), (''write_iops'', JInt 0),
        (''read_latency_p95_us'', JFloat 0), (''write_latency_p95_us'', JFloat 0),
        (''read_bw_kbps'', JInt 0), (''write_bw_kbps'', JInt 0)]]"
    by (simp add: result_rows_def partial_result_def example_env_def timeseries_row_def
        p95_us_def py_truediv_def metadata_keys_def)
  have p: "process_fio_results ''2026-01-01T00:00:00'' (JStr ''t1'') (JDict [(''jobs'', JList shadow_jobs)]) =
     Inr (JDict shadow_results)"
    by (simp add: process_fio_results_def py_iter_def shadow_jobs_def shadow_results_def
        zero_record_results setitem_def)
  have j: "map_of [(''jobs'', JList shadow_jobs)] ''jobs'' = Some (JList shadow_jobs)"
    by simp
  have m: "extract_key_metrics (JDict shadow_results) =
     Inr (JDict
       [(''unknown'',
         JDict
           [(''read_iops'', JInt 0), (''write_iops'', JInt 0),
            (''read_latency_us_p95'', JFloat 0), (''write_latency_us_p95'', JFloat 0),
            (''read_bandwidth_kbps'', JInt 0), (''write_bandwidth_kbps'', JInt 0)])])"
    by (simp add: shadow_results_def zero_record_def extract_key_metrics_def metadata_keys_def
        job_metrics_def p95_us_def py_truediv_def)
  have s: "shadow_jobs = [] @ JDict [(''jobname'', JStr ''timestamp'')] # [JDict []] \<and>
      job_results (JDict [(''jobname'', JStr ''timestamp'')]) = Inr (JStr ''timestamp'', zero_record) \<and>
      (\<forall>j\<in>set [JDict []]. dict_get j ''jobname'' (JStr ''unknown'') \<noteq> Inr (JStr ''timestamp''))"
    by (simp add: shadow_jobs_def zero_record_results)
  from jobname_shares_namespace_with_metadata [OF p j, of example_env] s
  have t: "map_of shadow_results ''timestamp'' = Some zero_record"
    by blast
  have u: "map_of shadow_results ''unknown'' = Some zero_record"
    by (simp add: shadow_results_def)
  from p t u m a show ?thesis by simp
qed

end
